theory Spec2Isabelle
  imports Complex_Main
begin

section \<open>The 4-tier scoring engine of \<^verbatim>\<open>scoring_engine_4tier.py\<close>\<close>

text \<open>
  The engine is the class \<^verbatim>\<open>ScoringEngine\<close>. Its methods read a flat Python
  dictionary with \<^verbatim>\<open>data.get(key, default)\<close>, score each metric by a threshold ladder
  or by a bonus accumulation, average the sub-scores with fixed weights and round the
  average to two decimals.

  Numbers: Python floats are modelled as real numbers, so all arithmetic here is exact.
  The thresholds, weights and inputs of the source are decimal literals and are written
  as such.
\<close>

subsection \<open>Exceptions, rounding and small helpers\<close>

datatype error = ZeroDivisionError | IndexError | KeyError

text \<open>Sequencing of fallible steps: the first exception raised is the result.\<close>

definition and_then :: "error + 'a \<Rightarrow> ('a \<Rightarrow> error + 'b) \<Rightarrow> error + 'b" where
  "and_then m f = (case m of Inl e \<Rightarrow> Inl e | Inr x \<Rightarrow> f x)"

text \<open>Python's \<^verbatim>\<open>a / b\<close> on floats raises when the divisor is zero.\<close>

definition py_div :: "real \<Rightarrow> real \<Rightarrow> error + real" where
  "py_div a b = (if b = 0 then Inl ZeroDivisionError else Inr (a / b))"

text \<open>A dictionary subscript \<^verbatim>\<open>m[k]\<close> raises on a missing key.\<close>

definition subscript :: "('k \<rightharpoonup> 'v) \<Rightarrow> 'k \<Rightarrow> error + 'v" where
  "subscript m k = (case m k of None \<Rightarrow> Inl KeyError | Some v \<Rightarrow> Inr v)"

text \<open>
  Python's one-argument \<^verbatim>\<open>round(x)\<close> rounds to the nearest integer, a tie going to
  the even neighbour; \<^verbatim>\<open>round(x, 2)\<close> does the same at the second decimal.
\<close>

definition py_round :: "real \<Rightarrow> int" where
  "py_round x =
     (let f = \<lfloor>x\<rfloor>; r = x - of_int f
      in if r < 1 / 2 then f
         else if r > 1 / 2 then f + 1
         else if even f then f else f + 1)"

definition py_round2 :: "real \<Rightarrow> real" where
  "py_round2 x = of_int (py_round (x * 100)) / 100"

text \<open>
  The weighted average \<^verbatim>\<open>(s1 * w1) + (s2 * w2) + ...\<close> that ends every scorer, with
  the sub-scores and the weights in the order of the source.
\<close>

definition weighted_sum :: "real list \<Rightarrow> real list \<Rightarrow> real" where
  "weighted_sum scores weights = sum_list (map2 (*) scores weights)"

text \<open>The increment of \<^verbatim>\<open>if flag: score += n\<close>.\<close>

definition bonus :: "bool \<Rightarrow> real \<Rightarrow> real" where
  "bonus b n = (if b then n else 0)"

subsection \<open>The input record\<close>

text \<open>
  \<^verbatim>\<open>data\<close> is a \<^verbatim>\<open>Dict[str, Any]\<close>. Every key is read at one type only: a number,
  a boolean, a string, or a nested dictionary of boolean flags. The model keeps one map
  per type, so an entry of the wrong type cannot be written down; a key that is absent
  is absent from its map.
\<close>

record score_input =
  nums :: "string \<rightharpoonup> real"
  bools :: "string \<rightharpoonup> bool"
  strs :: "string \<rightharpoonup> string"
  flag_sets :: "string \<rightharpoonup> (string \<rightharpoonup> bool)"

definition get_num :: "score_input \<Rightarrow> string \<Rightarrow> real \<Rightarrow> real" where
  "get_num data key dflt = (case nums data key of Some v \<Rightarrow> v | None \<Rightarrow> dflt)"

definition get_bool :: "score_input \<Rightarrow> string \<Rightarrow> bool \<Rightarrow> bool" where
  "get_bool data key dflt = (case bools data key of Some v \<Rightarrow> v | None \<Rightarrow> dflt)"

definition get_str :: "score_input \<Rightarrow> string \<Rightarrow> string \<Rightarrow> string" where
  "get_str data key dflt = (case strs data key of Some v \<Rightarrow> v | None \<Rightarrow> dflt)"

text \<open>\<^verbatim>\<open>data.get(key, {})\<close> followed by \<^verbatim>\<open>.get(flag, False)\<close>.\<close>

definition get_flags :: "score_input \<Rightarrow> string \<Rightarrow> (string \<rightharpoonup> bool)" where
  "get_flags data key = (case flag_sets data key of Some m \<Rightarrow> m | None \<Rightarrow> Map.empty)"

definition flag :: "(string \<rightharpoonup> bool) \<Rightarrow> string \<Rightarrow> bool" where
  "flag m key = (case m key of Some b \<Rightarrow> b | None \<Rightarrow> False)"


definition empty_input :: score_input where
  "empty_input = \<lparr>nums = Map.empty, bools = Map.empty, strs = Map.empty, flag_sets = Map.empty\<rparr>"

subsection \<open>Tier tables and primitives\<close>

record tier_definition =
  name :: string
  min_cap :: real
  max_cap :: "real option"
  min_score :: real

text \<open>\<^verbatim>\<open>max_cap\<close> of tier 1 is \<^verbatim>\<open>float('inf')\<close>, written \<open>None\<close>; it is never read.\<close>

definition TIER_DEFINITIONS :: "int \<rightharpoonup> tier_definition" where
  "TIER_DEFINITIONS = map_of
     [(1, \<lparr>name = ''Mega-Cap Core'', min_cap = 200, max_cap = None, min_score = 60\<rparr>),
      (2, \<lparr>name = ''Large-Cap Growth'', min_cap = 50, max_cap = Some 200, min_score = 65\<rparr>),
      (3, \<lparr>name = ''Mid-Cap Emerging'', min_cap = 10, max_cap = Some 50, min_score = 67\<rparr>),
      (4, \<lparr>name = ''Small-Cap Moonshots'', min_cap = 0, max_cap = Some 10, min_score = 70\<rparr>)]"

definition TIER_WEIGHTS :: "int \<rightharpoonup> (string \<times> real) list" where
  "TIER_WEIGHTS = map_of
     [(1, [(''V'', 0.20), (''Q'', 0.35), (''G'', 0.25), (''M'', 0.10), (''FH'', 0.10)]),
      (2, [(''V'', 0.18), (''Q'', 0.28), (''G'', 0.32), (''M'', 0.12), (''SM'', 0.10)]),
      (3, [(''V'', 0.15), (''Q'', 0.22), (''G'', 0.38), (''M'', 0.15), (''SI'', 0.10)]),
      (4, [(''V'', 0.10), (''Q'', 0.15), (''G'', 0.40), (''M'', 0.15), (''D'', 0.20)])]"

definition determine_tier :: "real \<Rightarrow> int" where
  "determine_tier market_cap_billions =
     (if market_cap_billions \<ge> 200 then 1
      else if market_cap_billions \<ge> 50 then 2
      else if market_cap_billions \<ge> 10 then 3
      else 4)"

definition cap_score :: "real \<Rightarrow> real \<Rightarrow> real" where
  "cap_score score maximum = min score maximum"

definition floor_score :: "real \<Rightarrow> real \<Rightarrow> real" where
  "floor_score score minimum = max score minimum"

text \<open>
  \<^verbatim>\<open>bracket_score\<close>: the loop returns the score of the first pair whose threshold the
  value reaches; when the loop ends without returning, \<^verbatim>\<open>brackets[-1][1]\<close> is the
  result, which raises on an empty list.
\<close>

fun bracket_loop :: "real \<Rightarrow> (real \<times> real) list \<Rightarrow> real option" where
  "bracket_loop v [] = None"
| "bracket_loop v ((threshold, score) # rest) =
     (if v \<ge> threshold then Some score else bracket_loop v rest)"

definition bracket_score :: "real \<Rightarrow> (real \<times> real) list \<Rightarrow> error + real" where
  "bracket_score v brackets =
     (case bracket_loop v brackets of
        Some score \<Rightarrow> Inr score
      | None \<Rightarrow> if brackets = [] then Inl IndexError else Inr (snd (last brackets)))"

text \<open>
  The technical set-up ladder on price and the two moving averages, which Tier 1 and
  Tier 2 momentum share word for word.
\<close>

definition technical_setup :: "real \<Rightarrow> real \<Rightarrow> real \<Rightarrow> real" where
  "technical_setup price ma_50 ma_200 =
     (if price > ma_50 \<and> price > ma_200 then 100
      else if price > ma_200 then 70
      else if price > ma_50 then 55
      else if ma_50 < price \<and> price < ma_200 then 50
      else 30)"

subsection \<open>Tier 1: Mega-Cap Core\<close>

text \<open>
  Each numbered component of a scorer is a definition of its own, named after the
  scorer (\<open>t1v\<close> is \<^verbatim>\<open>tier1_valuation\<close>, \<open>t1q\<close> is \<^verbatim>\<open>tier1_quality\<close>, and
  so on) and the variable the source assigns; so is each bracket table. A scorer
  collects its sub-scores in the order of its weighted average, and the weights of that
  average are a list of their own.
\<close>

definition t1v_pe_score :: "score_input \<Rightarrow> error + real" where
  "t1v_pe_score data =
     (let current_pe = get_num data ''pe_ratio'' 0;
          historical_pe = get_num data ''historical_pe_avg'' current_pe
      in if historical_pe > 0
         then and_then (py_div current_pe historical_pe) (\<lambda>pe_ratio_vs_hist.
                Inr (cap_score (floor_score (100 - ((pe_ratio_vs_hist - 1) * 100)) 0) 100))
         else Inr 50)"

definition t1v_fcf_brackets :: "(real \<times> real) list" where
  "t1v_fcf_brackets = [(5, 100), (3, 80), (2, 60), (1, 40), (0, 20)]"

definition t1v_fcf_score :: "score_input \<Rightarrow> error + real" where
  "t1v_fcf_score data =
     bracket_score (get_num data ''fcf_yield_pct'' 0) t1v_fcf_brackets"

fun peg_loop :: "real \<Rightarrow> (real \<times> real) list \<Rightarrow> real \<Rightarrow> real" where
  "peg_loop peg_ratio [] peg_score = peg_score"
| "peg_loop peg_ratio ((threshold, score) # rest) peg_score =
     (if peg_ratio \<le> threshold then score else peg_loop peg_ratio rest peg_score)"

definition t1v_peg_score :: "score_input \<Rightarrow> real" where
  "t1v_peg_score data =
     (let peg_ratio = get_num data ''peg_ratio'' 999;
          peg_brackets_reversed = [(1.0, 100), (1.5, 85), (2.0, 70), (2.5, 50)]
      in if peg_ratio < 1.0 then 100
         else peg_loop peg_ratio peg_brackets_reversed 30)"

definition tier1_valuation_weights :: "real list" where
  "tier1_valuation_weights = [0.35, 0.30, 0.35]"

definition tier1_valuation_scores :: "score_input \<Rightarrow> error + real list" where
  "tier1_valuation_scores data =
     and_then (t1v_pe_score data) (\<lambda>pe_score.
     and_then (t1v_fcf_score data) (\<lambda>fcf_score.
     Inr [pe_score, fcf_score, t1v_peg_score data]))"

definition tier1_valuation :: "score_input \<Rightarrow> error + real" where
  "tier1_valuation data =
     and_then (tier1_valuation_scores data) (\<lambda>scores.
     Inr (py_round2 (weighted_sum scores tier1_valuation_weights)))"

definition t1q_roic_brackets :: "(real \<times> real) list" where
  "t1q_roic_brackets = [(25, 100), (20, 90), (15, 75), (10, 50), (0, 25)]"

definition t1q_roic_score :: "score_input \<Rightarrow> error + real" where
  "t1q_roic_score data =
     bracket_score (get_num data ''roic_pct'' 0) t1q_roic_brackets"

definition t1q_op_margin_brackets :: "(real \<times> real) list" where
  "t1q_op_margin_brackets = [(30, 100), (20, 85), (15, 70), (10, 50), (0, 30)]"

definition t1q_op_margin_score :: "score_input \<Rightarrow> error + real" where
  "t1q_op_margin_score data =
     bracket_score (get_num data ''operating_margin_pct'' 0) t1q_op_margin_brackets"

definition t1q_margin_trend_brackets :: "(real \<times> real) list" where
  "t1q_margin_trend_brackets = [(200, 100), (100, 85), (50, 70), (-50, 60), (-999, 25)]"

definition t1q_margin_trend_score :: "score_input \<Rightarrow> error + real" where
  "t1q_margin_trend_score data =
     bracket_score (get_num data ''margin_trend_bps_per_year'' 0) t1q_margin_trend_brackets"

definition t1q_moat_score :: "score_input \<Rightarrow> real" where
  "t1q_moat_score data =
     (let moat_base = 50;
          moat_bonuses = get_flags data ''moat_bonuses''
      in cap_score
           (moat_base
            + bonus (flag moat_bonuses ''network_effects'') 25
            + bonus (flag moat_bonuses ''economies_of_scale'') 20
            + bonus (flag moat_bonuses ''switching_costs'') 20
            + bonus (flag moat_bonuses ''intangible_assets'') 15
            + bonus (flag moat_bonuses ''regulatory_moat'') 10) 100)"

definition t1q_mgmt_score :: "score_input \<Rightarrow> real" where
  "t1q_mgmt_score data =
     (let earnings_beat_rate = get_num data ''earnings_beat_rate_pct'' 50;
          mgmt_base = (if earnings_beat_rate > 80 then 100
                       else if earnings_beat_rate \<ge> 70 then 85
                       else if earnings_beat_rate \<ge> 60 then 70
                       else 50);
          mgmt_bonuses = get_flags data ''mgmt_bonuses''
      in cap_score
           (mgmt_base
            + bonus (flag mgmt_bonuses ''smart_ma'') 10
            + bonus (flag mgmt_bonuses ''consistent_buybacks'') 8
            + bonus (flag mgmt_bonuses ''growing_dividend'') 7) 100)"

definition t1q_cash_brackets :: "(real \<times> real) list" where
  "t1q_cash_brackets = [(1.2, 100), (1.0, 80), (0.8, 60), (0, 30)]"

definition t1q_cash_conv_score :: "score_input \<Rightarrow> error + real" where
  "t1q_cash_conv_score data =
     bracket_score (get_num data ''cash_conversion_ratio'' 0) t1q_cash_brackets"

definition tier1_quality_weights :: "real list" where
  "tier1_quality_weights = [0.30, 0.20, 0.12, 0.18, 0.10, 0.10]"

definition tier1_quality_scores :: "score_input \<Rightarrow> error + real list" where
  "tier1_quality_scores data =
     and_then (t1q_roic_score data) (\<lambda>roic_score.
     and_then (t1q_op_margin_score data) (\<lambda>op_margin_score.
     and_then (t1q_margin_trend_score data) (\<lambda>margin_trend_score.
     and_then (t1q_cash_conv_score data) (\<lambda>cash_conv_score.
     Inr [roic_score, op_margin_score, margin_trend_score,
          t1q_moat_score data, t1q_mgmt_score data, cash_conv_score]))))"

definition tier1_quality :: "score_input \<Rightarrow> error + real" where
  "tier1_quality data =
     and_then (tier1_quality_scores data) (\<lambda>scores.
     Inr (py_round2 (weighted_sum scores tier1_quality_weights)))"

definition t1g_rev_brackets :: "(real \<times> real) list" where
  "t1g_rev_brackets = [(20, 100), (15, 85), (10, 65), (7, 45), (5, 30), (0, 15)]"

definition t1g_rev_growth_score :: "score_input \<Rightarrow> error + real" where
  "t1g_rev_growth_score data =
     bracket_score (get_num data ''revenue_cagr_3yr_pct'' 0) t1g_rev_brackets"

definition t1g_consistency_score :: "score_input \<Rightarrow> real" where
  "t1g_consistency_score data =
     (let consistency_base = 50;
          recent_yoy = get_num data ''revenue_growth_recent_yoy_pct'' 0;
          avg_3yr = get_num data ''revenue_cagr_3yr_pct'' 0;
          delta = recent_yoy - avg_3yr
      in cap_score
           (if delta > 3 then consistency_base + 50
            else if delta \<ge> 1 then consistency_base + 30
            else if \<bar>delta\<bar> \<le> 1 then consistency_base + 10
            else if delta \<ge> -3 then consistency_base - 10
            else consistency_base - 30) 100)"

definition t1g_eps_brackets :: "(real \<times> real) list" where
  "t1g_eps_brackets = [(25, 100), (18, 85), (12, 70), (8, 50), (0, 30)]"

definition t1g_eps_score :: "score_input \<Rightarrow> error + real" where
  "t1g_eps_score data =
     (let rev_cagr = get_num data ''revenue_cagr_3yr_pct'' 0;
          eps_cagr = get_num data ''eps_cagr_3yr_pct'' 0
      in and_then (bracket_score eps_cagr t1g_eps_brackets)
           (\<lambda>eps_base_score.
              Inr (cap_score (floor_score
                     (if eps_cagr > rev_cagr + 5 then eps_base_score + 15
                      else if eps_cagr < rev_cagr - 5 then eps_base_score - 15
                      else eps_base_score) 0) 100)))"

definition t1g_future_score :: "score_input \<Rightarrow> real" where
  "t1g_future_score data =
     (let tam_billions = get_num data ''tam_billions'' 0;
          market_share_pct = get_num data ''market_share_pct'' 100;
          future_base = (if tam_billions > 500 \<and> market_share_pct < 20 then 100
                         else if tam_billions \<ge> 200 \<and> market_share_pct < 30 then 85
                         else if tam_billions \<ge> 100 \<and> market_share_pct < 40 then 70
                         else 50);
          future_bonuses = get_flags data ''future_growth_bonuses''
      in cap_score
           (future_base
            + bonus (flag future_bonuses ''geographic_expansion'') 10
            + bonus (flag future_bonuses ''new_product_cycles'') 10
            + bonus (flag future_bonuses ''platform_effects'') 10
            + bonus (flag future_bonuses ''multiple_growth_vectors'') 10) 100)"

definition t1g_analyst_brackets :: "(real \<times> real) list" where
  "t1g_analyst_brackets = [(15, 100), (12, 80), (8, 60), (5, 40), (0, 20)]"

definition t1g_analyst_score :: "score_input \<Rightarrow> error + real" where
  "t1g_analyst_score data =
     bracket_score (get_num data ''analyst_forward_growth_pct'' 0) t1g_analyst_brackets"

definition tier1_growth_weights :: "real list" where
  "tier1_growth_weights = [0.30, 0.15, 0.25, 0.15, 0.15]"

definition tier1_growth_scores :: "score_input \<Rightarrow> error + real list" where
  "tier1_growth_scores data =
     and_then (t1g_rev_growth_score data) (\<lambda>rev_growth_score.
     and_then (t1g_eps_score data) (\<lambda>eps_score.
     and_then (t1g_analyst_score data) (\<lambda>analyst_score.
     Inr [rev_growth_score, t1g_consistency_score data, eps_score,
          t1g_future_score data, analyst_score])))"

definition tier1_growth :: "score_input \<Rightarrow> error + real" where
  "tier1_growth data =
     and_then (tier1_growth_scores data) (\<lambda>scores.
     Inr (py_round2 (weighted_sum scores tier1_growth_weights)))"

definition t1m_return_brackets :: "(real \<times> real) list" where
  "t1m_return_brackets = [(30, 100), (20, 80), (10, 60), (0, 45), (-10, 40), (-999, 60)]"

definition t1m_return_score :: "score_input \<Rightarrow> error + real" where
  "t1m_return_score data =
     (let return_12m = get_num data ''return_12m_pct'' 0
      in if return_12m < -10 then Inr 60
         else bracket_score return_12m (butlast t1m_return_brackets))"

definition t1m_rel_brackets :: "(real \<times> real) list" where
  "t1m_rel_brackets = [(10, 100), (5, 75), (0, 60), (-5, 50), (-999, 30)]"

definition t1m_rel_score :: "score_input \<Rightarrow> error + real" where
  "t1m_rel_score data =
     (let stock_return = get_num data ''return_12m_pct'' 0;
          spy_return = get_num data ''spy_return_12m_pct'' 0;
          rel_perf = stock_return - spy_return
      in bracket_score rel_perf t1m_rel_brackets)"

definition t1m_technical_score :: "score_input \<Rightarrow> real" where
  "t1m_technical_score data =
     technical_setup (get_num data ''price'' 0) (get_num data ''ma_50'' 0)
       (get_num data ''ma_200'' 0)"

definition tier1_momentum_weights :: "real list" where
  "tier1_momentum_weights = [0.40, 0.35, 0.25]"

definition tier1_momentum_scores :: "score_input \<Rightarrow> error + real list" where
  "tier1_momentum_scores data =
     and_then (t1m_return_score data) (\<lambda>return_score.
     and_then (t1m_rel_score data) (\<lambda>rel_score.
     Inr [return_score, rel_score, t1m_technical_score data]))"

definition tier1_momentum :: "score_input \<Rightarrow> error + real" where
  "tier1_momentum data =
     and_then (tier1_momentum_scores data) (\<lambda>scores.
     Inr (py_round2 (weighted_sum scores tier1_momentum_weights)))"

definition t1fh_net_cash_score :: "score_input \<Rightarrow> real" where
  "t1fh_net_cash_score data =
     (let net_cash_billions = get_num data ''net_cash_billions'' 0
      in if net_cash_billions > 75 then 100
         else if net_cash_billions \<ge> 50 then 90
         else if net_cash_billions \<ge> 25 then 80
         else if net_cash_billions \<ge> 0 then 70
         else if net_cash_billions \<ge> -50 then 60
         else 40)"

definition t1fh_fcf_brackets :: "(real \<times> real) list" where
  "t1fh_fcf_brackets = [(20, 100), (15, 90), (10, 80), (5, 60), (0, 40)]"

definition t1fh_fcf_score :: "score_input \<Rightarrow> error + real" where
  "t1fh_fcf_score data =
     bracket_score (get_num data ''fcf_billions'' 0) t1fh_fcf_brackets"

definition t1fh_cap_alloc_score :: "score_input \<Rightarrow> real" where
  "t1fh_cap_alloc_score data =
     (let cap_alloc_base = 50;
          cap_alloc_bonuses = get_flags data ''capital_allocation_bonuses''
      in cap_score
           (cap_alloc_base
            + bonus (flag cap_alloc_bonuses ''buybacks_rnd_gt_10pct'') 25
            + bonus (flag cap_alloc_bonuses ''value_creating_ma'') 20
            + bonus (flag cap_alloc_bonuses ''growing_dividend'') 15
            + bonus (flag cap_alloc_bonuses ''disciplined_deployment'') 10) 100)"

definition tier1_financial_health_weights :: "real list" where
  "tier1_financial_health_weights = [0.50, 0.40, 0.10]"

definition tier1_financial_health_scores :: "score_input \<Rightarrow> error + real list" where
  "tier1_financial_health_scores data =
     and_then (t1fh_fcf_score data) (\<lambda>fcf_score.
     Inr [t1fh_net_cash_score data, fcf_score, t1fh_cap_alloc_score data])"

definition tier1_financial_health :: "score_input \<Rightarrow> error + real" where
  "tier1_financial_health data =
     and_then (tier1_financial_health_scores data) (\<lambda>scores.
     Inr (py_round2 (weighted_sum scores tier1_financial_health_weights)))"

definition tier1_composite_weights :: "real list" where
  "tier1_composite_weights = [0.20, 0.35, 0.25, 0.10, 0.10]"

definition calculate_tier1_composite :: "score_input \<Rightarrow> error + real \<times> (string \<times> real) list" where
  "calculate_tier1_composite data =
     and_then (tier1_valuation data) (\<lambda>v_score.
     and_then (tier1_quality data) (\<lambda>q_score.
     and_then (tier1_growth data) (\<lambda>g_score.
     and_then (tier1_momentum data) (\<lambda>m_score.
     and_then (tier1_financial_health data) (\<lambda>fh_score.
     Inr (py_round2 (weighted_sum [v_score, q_score, g_score, m_score, fh_score]
                       tier1_composite_weights),
          [(''Valuation'', v_score), (''Quality'', q_score), (''Growth'', g_score),
           (''Momentum'', m_score), (''Financial_Health'', fh_score)]))))))"

subsection \<open>Tier 2: Large-Cap Growth\<close>

definition t2v_pe_ps_score :: "score_input \<Rightarrow> real" where
  "t2v_pe_ps_score data =
     (let is_profitable = get_bool data ''is_profitable'' True
      in if is_profitable
         then (let forward_pe = get_num data ''forward_pe'' 999
               in if forward_pe < 25 then 100
                  else if forward_pe < 35 then 85
                  else if forward_pe < 50 then 70
                  else if forward_pe < 70 then 50
                  else 35)
         else (let ps_ratio = get_num data ''ps_ratio'' 999;
                   growth_rate = get_num data ''revenue_growth_recent_yoy_pct'' 0;
                   pe_ps_score = (if ps_ratio < 8 then 100
                                  else if ps_ratio < 12 then 85
                                  else if ps_ratio < 18 then 70
                                  else if ps_ratio < 25 then 50
                                  else if ps_ratio < 35 then 35
                                  else 25)
               in cap_score
                    (if growth_rate > 50 \<and> ps_ratio > 35 then pe_ps_score + 15
                     else if growth_rate > 50 \<and> 25 \<le> ps_ratio \<and> ps_ratio \<le> 35
                          then pe_ps_score + 25
                     else if growth_rate > 35 \<and> 18 \<le> ps_ratio \<and> ps_ratio \<le> 25
                          then pe_ps_score + 20
                     else pe_ps_score) 100))"

definition t2v_peg_score :: "score_input \<Rightarrow> real" where
  "t2v_peg_score data =
     (let peg_ratio = get_num data ''peg_ratio'' 999
      in if peg_ratio < 1.0 then 100
         else if peg_ratio < 1.5 then 85
         else if peg_ratio < 2.0 then 70
         else if peg_ratio < 2.5 then 50
         else 30)"

definition t2v_rel_val_score :: "score_input \<Rightarrow> real" where
  "t2v_rel_val_score data =
     (let pe_ps_score = t2v_pe_ps_score data;
          sector_median_pe = get_num data ''sector_median_pe'' pe_ps_score;
          stock_pe = get_num data ''forward_pe'' pe_ps_score
      in if stock_pe < sector_median_pe then 100
         else if stock_pe \<le> sector_median_pe * 1.15 then 80
         else if stock_pe \<le> sector_median_pe * 1.30 then 60
         else if stock_pe \<le> sector_median_pe * 1.50 then 40
         else 20)"

definition tier2_valuation_weights :: "real list" where
  "tier2_valuation_weights = [0.55, 0.25, 0.20]"

definition tier2_valuation_scores :: "score_input \<Rightarrow> real list" where
  "tier2_valuation_scores data =
     [t2v_pe_ps_score data, t2v_peg_score data, t2v_rel_val_score data]"

definition tier2_valuation :: "score_input \<Rightarrow> real" where
  "tier2_valuation data =
     py_round2 (weighted_sum (tier2_valuation_scores data) tier2_valuation_weights)"

definition t2q_rev_scale_brackets :: "(real \<times> real) list" where
  "t2q_rev_scale_brackets = [(10, 100), (7, 90), (5, 80), (3, 70), (2, 60), (0, 45)]"

definition t2q_rev_scale_score :: "score_input \<Rightarrow> error + real" where
  "t2q_rev_scale_score data =
     bracket_score (get_num data ''revenue_billions'' 0) t2q_rev_scale_brackets"

definition t2q_profit_score :: "score_input \<Rightarrow> real" where
  "t2q_profit_score data =
     (let is_gaap_profitable = get_bool data ''is_gaap_profitable'' False;
          op_margin = get_num data ''operating_margin_pct'' 0
      in if is_gaap_profitable
         then (if op_margin > 20 then 100
               else if op_margin \<ge> 15 then 90
               else if op_margin \<ge> 10 then 75
               else if op_margin \<ge> 5 then 60
               else 50)
         else (let path_to_profit_quarters = get_num data ''path_to_profit_quarters'' 999
               in if path_to_profit_quarters < 4 then 40
                  else if path_to_profit_quarters < 8 then 30
                  else 15))"

definition t2q_gross_margin_score :: "score_input \<Rightarrow> real" where
  "t2q_gross_margin_score data =
     (let gross_margin = get_num data ''gross_margin_pct'' 0
      in if gross_margin > 75 then 100
         else if gross_margin \<ge> 65 then 90
         else if gross_margin \<ge> 55 then 80
         else if gross_margin \<ge> 45 then 70
         else if gross_margin \<ge> 35 then 55
         else 35)"

definition t2q_margin_traj_score :: "score_input \<Rightarrow> real" where
  "t2q_margin_traj_score data =
     (let margin_trend_bps = get_num data ''margin_trend_bps_per_year'' 0
      in if margin_trend_bps > 300 then 100
         else if margin_trend_bps \<ge> 200 then 90
         else if margin_trend_bps \<ge> 100 then 80
         else if margin_trend_bps \<ge> 50 then 65
         else if \<bar>margin_trend_bps\<bar> \<le> 50 then 50
         else 25)"

text \<open>The four proxy scores that a non-SaaS issuer appends to \<^verbatim>\<open>scores\<close>.\<close>

definition t2q_repeat_revenue_option :: "score_input \<Rightarrow> real" where
  "t2q_repeat_revenue_option data =
     (let repeat_revenue_pct = get_num data ''repeat_revenue_pct'' 0
      in if repeat_revenue_pct > 70 then 100
         else if repeat_revenue_pct \<ge> 50 then 80
         else if repeat_revenue_pct \<ge> 30 then 60
         else 40)"

definition t2q_churn_option :: "score_input \<Rightarrow> real" where
  "t2q_churn_option data =
     (let customer_churn_pct = get_num data ''customer_churn_pct'' 100
      in if customer_churn_pct < 5 then 100
         else if customer_churn_pct < 10 then 75
         else if customer_churn_pct < 15 then 50
         else 30)"

definition t2q_customer_growth_option :: "score_input \<Rightarrow> real" where
  "t2q_customer_growth_option data =
     (let customer_growth_pct = get_num data ''customer_growth_pct'' 0
      in if customer_growth_pct > 25 then 100
         else if customer_growth_pct \<ge> 15 then 80
         else if customer_growth_pct \<ge> 5 then 60
         else 40)"

definition t2q_concentration_option :: "score_input \<Rightarrow> real" where
  "t2q_concentration_option data =
     (let top_customer_concentration_pct = get_num data ''top_customer_concentration_pct'' 100
      in if top_customer_concentration_pct < 10 then 85
         else if top_customer_concentration_pct < 20 then 70
         else if top_customer_concentration_pct < 30 then 50
         else 25)"

definition t2q_retention_score :: "score_input \<Rightarrow> real" where
  "t2q_retention_score data =
     (let is_saas = get_bool data ''is_saas'' False
      in if is_saas
         then (let nrr_pct = get_num data ''nrr_pct'' 100;
                   dbr_pct = get_num data ''dollar_based_retention_pct'' 100;
                   retention_base = (if nrr_pct > 130 then 100
                                     else if nrr_pct \<ge> 120 then 90
                                     else if nrr_pct \<ge> 110 then 80
                                     else if nrr_pct \<ge> 100 then 65
                                     else if nrr_pct \<ge> 90 then 45
                                     else 25)
               in cap_score (retention_base + bonus (dbr_pct > 105) 15) 100)
         else (let scores = [] @ [t2q_repeat_revenue_option data] @ [t2q_churn_option data]
                              @ [t2q_customer_growth_option data]
                              @ [t2q_concentration_option data]
               in if scores \<noteq> [] then Max (set scores) else 50))"

definition t2q_market_pos_score :: "score_input \<Rightarrow> real" where
  "t2q_market_pos_score data =
     (let market_pos_base = 50;
          market_pos_bonuses = get_flags data ''market_position_bonuses''
      in cap_score
           (market_pos_base
            + (if flag market_pos_bonuses ''top_1_or_2'' then 35
               else if flag market_pos_bonuses ''top_3_to_5'' then 25
               else 0)
            + bonus (flag market_pos_bonuses ''gaining_share'') 25
            + bonus (flag market_pos_bonuses ''category_leader'') 30) 100)"

definition tier2_quality_weights :: "real list" where
  "tier2_quality_weights = [0.15, 0.18, 0.20, 0.15, 0.20, 0.12]"

definition tier2_quality_scores :: "score_input \<Rightarrow> error + real list" where
  "tier2_quality_scores data =
     and_then (t2q_rev_scale_score data) (\<lambda>rev_scale_score.
     Inr [rev_scale_score, t2q_profit_score data, t2q_gross_margin_score data,
          t2q_margin_traj_score data, t2q_retention_score data, t2q_market_pos_score data])"

definition tier2_quality :: "score_input \<Rightarrow> error + real" where
  "tier2_quality data =
     and_then (tier2_quality_scores data) (\<lambda>scores.
     Inr (py_round2 (weighted_sum scores tier2_quality_weights)))"

definition t2g_rev_growth_score :: "score_input \<Rightarrow> real" where
  "t2g_rev_growth_score data =
     (let ttm_growth = get_num data ''revenue_growth_ttm_pct'' 0
      in if ttm_growth > 35 then 100
         else if ttm_growth \<ge> 28 then 90
         else if ttm_growth \<ge> 22 then 80
         else if ttm_growth \<ge> 18 then 70
         else if ttm_growth \<ge> 15 then 55
         else if ttm_growth \<ge> 12 then 40
         else 20)"

definition t2g_consistency_score :: "score_input \<Rightarrow> real" where
  "t2g_consistency_score data =
     (let ttm_growth = get_num data ''revenue_growth_ttm_pct'' 0;
          years_of_25plus_growth = get_num data ''years_of_25plus_growth'' 0;
          is_accelerating = get_bool data ''is_accelerating'' False
      in if years_of_25plus_growth \<ge> 3 then 100
         else if years_of_25plus_growth = 2 then 85
         else if is_accelerating then 80
         else if ttm_growth \<ge> 20 then 60
         else 20)"

definition t2g_forward_score :: "score_input \<Rightarrow> real" where
  "t2g_forward_score data =
     (let forward_growth_estimate = get_num data ''analyst_forward_growth_pct'' 0;
          current_growth = get_num data ''revenue_growth_ttm_pct'' 0;
          forward_base = (if forward_growth_estimate > 30 then 100
                          else if forward_growth_estimate \<ge> 25 then 85
                          else if forward_growth_estimate \<ge> 20 then 70
                          else if forward_growth_estimate \<ge> 15 then 55
                          else if forward_growth_estimate \<ge> 10 then 40
                          else 20)
      in cap_score
           (forward_base + bonus (forward_growth_estimate > current_growth + 5) 20) 100)"

definition t2g_eps_vs_rev_score :: "score_input \<Rightarrow> real" where
  "t2g_eps_vs_rev_score data =
     (let eps_growth = get_num data ''eps_growth_pct'' 0;
          rev_growth = get_num data ''revenue_growth_ttm_pct'' 0;
          eps_vs_rev_base = 50
      in cap_score
           (if eps_growth > rev_growth + 7 then eps_vs_rev_base + 50
            else if \<bar>eps_growth - rev_growth\<bar> \<le> 5 then eps_vs_rev_base + 20
            else if eps_growth < rev_growth - 5 then eps_vs_rev_base - 20
            else eps_vs_rev_base) 100)"

definition t2g_tam_score :: "score_input \<Rightarrow> real" where
  "t2g_tam_score data =
     (let tam_billions = get_num data ''tam_billions'' 0;
          penetration_pct = get_num data ''market_penetration_pct'' 100
      in if tam_billions > 100 \<and> penetration_pct < 10 then 100
         else if tam_billions \<ge> 75 \<and> penetration_pct < 12 then 90
         else if tam_billions \<ge> 50 \<and> penetration_pct < 15 then 80
         else if tam_billions \<ge> 25 \<and> penetration_pct < 20 then 65
         else 40)"

definition t2g_drivers_score :: "score_input \<Rightarrow> real" where
  "t2g_drivers_score data =
     (let drivers_base = 50;
          drivers_bonuses = get_flags data ''growth_driver_bonuses''
      in cap_score
           (drivers_base
            + bonus (flag drivers_bonuses ''multiple_segments_20plus'') 25
            + bonus (flag drivers_bonuses ''geographic_expansion'') 15
            + bonus (flag drivers_bonuses ''new_products'') 15
            + bonus (flag drivers_bonuses ''platform_effects'') 15
            + bonus (flag drivers_bonuses ''viral_network'') 10) 100)"

definition t2g_cyclicality_score :: "score_input \<Rightarrow> real" where
  "t2g_cyclicality_score data =
     (let business_type = get_str data ''business_type'' ''software''
      in if business_type \<in> set [''software'', ''saas''] then 100
         else if business_type = ''early_mid_cycle'' then 85
         else if business_type = ''late_cycle_secular'' then 70
         else if business_type = ''peak_cycle'' then 40
         else 20)"

definition tier2_growth_weights :: "real list" where
  "tier2_growth_weights = [0.25, 0.15, 0.20, 0.10, 0.15, 0.10, 0.05]"

definition tier2_growth_scores :: "score_input \<Rightarrow> real list" where
  "tier2_growth_scores data =
     [t2g_rev_growth_score data, t2g_consistency_score data, t2g_forward_score data,
      t2g_eps_vs_rev_score data, t2g_tam_score data, t2g_drivers_score data,
      t2g_cyclicality_score data]"

definition tier2_growth :: "score_input \<Rightarrow> real" where
  "tier2_growth data =
     py_round2 (weighted_sum (tier2_growth_scores data) tier2_growth_weights)"

definition t2m_return_score :: "score_input \<Rightarrow> real" where
  "t2m_return_score data =
     (let return_6m = get_num data ''return_6m_pct'' 0;
          return_base = (if return_6m > 50 then 100
                         else if return_6m \<ge> 35 then 85
                         else if return_6m \<ge> 20 then 70
                         else if return_6m \<ge> 10 then 50
                         else if return_6m \<ge> 0 then 40
                         else 60);
          inst_bonuses = get_flags data ''institutional_bonuses''
      in cap_score
           (return_base
            + bonus (flag inst_bonuses ''increasing_ownership'') 15
            + bonus (flag inst_bonuses ''smart_money'') 10
            + bonus (flag inst_bonuses ''insider_buying'') 10) 100)"

definition t2m_rel_score :: "score_input \<Rightarrow> real" where
  "t2m_rel_score data =
     (let return_6m = get_num data ''return_6m_pct'' 0;
          qqq_return_6m = get_num data ''qqq_return_6m_pct'' 0;
          rel_perf = return_6m - qqq_return_6m;
          rel_base = (if rel_perf > 15 then 100
                      else if rel_perf \<ge> 8 then 80
                      else if rel_perf \<ge> 0 then 60
                      else if rel_perf \<ge> -8 then 45
                      else 30);
          analyst_bonuses = get_flags data ''analyst_momentum_bonuses''
      in cap_score
           (rel_base
            + bonus (flag analyst_bonuses ''multiple_upgrades'') 15
            + bonus (flag analyst_bonuses ''price_target_increases'') 10
            + bonus (flag analyst_bonuses ''positive_revisions'') 10) 100)"

definition t2m_technical_score :: "score_input \<Rightarrow> real" where
  "t2m_technical_score data =
     technical_setup (get_num data ''price'' 0) (get_num data ''ma_50'' 0)
       (get_num data ''ma_200'' 0)"

definition tier2_momentum_weights :: "real list" where
  "tier2_momentum_weights = [0.40, 0.35, 0.25]"

definition tier2_momentum_scores :: "score_input \<Rightarrow> real list" where
  "tier2_momentum_scores data =
     [t2m_return_score data, t2m_rel_score data, t2m_technical_score data]"

definition tier2_momentum :: "score_input \<Rightarrow> real" where
  "tier2_momentum data =
     py_round2 (weighted_sum (tier2_momentum_scores data) tier2_momentum_weights)"

definition t2sm_comp_pos_score :: "score_input \<Rightarrow> real" where
  "t2sm_comp_pos_score data =
     (let company_growth = get_num data ''revenue_growth_ttm_pct'' 0;
          sector_growth = get_num data ''sector_avg_growth_pct'' 0
      in if company_growth > sector_growth * 1.5 then 100
         else if company_growth > sector_growth * 1.2 then 80
         else if company_growth \<ge> sector_growth then 60
         else 30)"

definition t2sm_moat_score :: "score_input \<Rightarrow> real" where
  "t2sm_moat_score data =
     (let moat_base = 50;
          moat_bonuses = get_flags data ''moat_development_bonuses''
      in cap_score
           (moat_base
            + bonus (flag moat_bonuses ''network_effects'') 30
            + bonus (flag moat_bonuses ''switching_costs'') 25
            + bonus (flag moat_bonuses ''economies_of_scale'') 20
            + bonus (flag moat_bonuses ''brand_ecosystem'') 20
            + bonus (flag moat_bonuses ''data_ip_moat'') 15) 100)"

definition t2sm_op_leverage_score :: "score_input \<Rightarrow> real" where
  "t2sm_op_leverage_score data =
     (let margin_expansion_bps = get_num data ''margin_trend_bps_per_year'' 0;
          revenue_growth_pct = get_num data ''revenue_growth_ttm_pct'' 0
      in if margin_expansion_bps > revenue_growth_pct * 10 then 100
         else if margin_expansion_bps > 0 then 75
         else if margin_expansion_bps > -100 then 50
         else 30)"

definition t2sm_partnership_score :: "score_input \<Rightarrow> real" where
  "t2sm_partnership_score data =
     (let partnership_base = 50;
          partnership_bonuses = get_flags data ''partnership_bonuses''
      in cap_score
           (partnership_base
            + bonus (flag partnership_bonuses ''major_tech_partners'') 25
            + bonus (flag partnership_bonuses ''gov_contracts'') 25
            + bonus (flag partnership_bonuses ''ecosystem_integrations'') 20
            + bonus (flag partnership_bonuses ''strategic_customers'') 15) 100)"

definition tier2_scale_moat_weights :: "real list" where
  "tier2_scale_moat_weights = [0.35, 0.30, 0.20, 0.15]"

definition tier2_scale_moat_scores :: "score_input \<Rightarrow> real list" where
  "tier2_scale_moat_scores data =
     [t2sm_comp_pos_score data, t2sm_moat_score data, t2sm_op_leverage_score data,
      t2sm_partnership_score data]"

definition tier2_scale_moat :: "score_input \<Rightarrow> real" where
  "tier2_scale_moat data =
     py_round2 (weighted_sum (tier2_scale_moat_scores data) tier2_scale_moat_weights)"

definition tier2_composite_weights :: "real list" where
  "tier2_composite_weights = [0.18, 0.28, 0.32, 0.12, 0.10]"

definition calculate_tier2_composite :: "score_input \<Rightarrow> error + real \<times> (string \<times> real) list" where
  "calculate_tier2_composite data =
     (let v_score = tier2_valuation data
      in and_then (tier2_quality data) (\<lambda>q_score.
         let g_score = tier2_growth data;
             m_score = tier2_momentum data;
             sm_score = tier2_scale_moat data
         in Inr (py_round2 (weighted_sum [v_score, q_score, g_score, m_score, sm_score]
                              tier2_composite_weights),
                 [(''Valuation'', v_score), (''Quality'', q_score), (''Growth'', g_score),
                  (''Momentum'', m_score), (''Scale_Moat'', sm_score)])))"

subsection \<open>Tier 3: Mid-Cap Emerging\<close>

definition t3v_ps_score :: "score_input \<Rightarrow> real" where
  "t3v_ps_score data =
     (let ps_ratio = get_num data ''ps_ratio'' 999;
          growth_rate = get_num data ''revenue_growth_ttm_pct'' 0;
          ps_base = (if ps_ratio < 10 then 100
                     else if ps_ratio < 15 then 85
                     else if ps_ratio < 22 then 70
                     else if ps_ratio < 30 then 55
                     else if ps_ratio < 40 then 40
                     else 30)
      in cap_score
           (if growth_rate > 40 \<and> 22 \<le> ps_ratio \<and> ps_ratio \<le> 30 then ps_base + 25
            else if growth_rate > 50 \<and> 30 \<le> ps_ratio \<and> ps_ratio \<le> 40 then ps_base + 30
            else if growth_rate > 60 \<and> ps_ratio > 40 then ps_base + 20
            else ps_base) 100)"

definition t3v_rel_val_score :: "score_input \<Rightarrow> real" where
  "t3v_rel_val_score data =
     (let ps_ratio = get_num data ''ps_ratio'' 999;
          sector_median_ps = get_num data ''sector_median_ps'' ps_ratio
      in if ps_ratio < sector_median_ps then 100
         else if ps_ratio \<le> sector_median_ps then 75
         else if ps_ratio \<le> sector_median_ps * 1.5 then 60
         else if ps_ratio \<le> sector_median_ps * 2.0 then 40
         else 20)"

definition t3v_insider_score :: "score_input \<Rightarrow> real" where
  "t3v_insider_score data =
     (let insider_ownership_pct = get_num data ''insider_ownership_pct'' 0;
          insider_base = (if insider_ownership_pct > 20 then 100
                          else if insider_ownership_pct \<ge> 15 then 90
                          else if insider_ownership_pct \<ge> 10 then 75
                          else if insider_ownership_pct \<ge> 5 then 60
                          else 40);
          insider_bonuses = get_flags data ''insider_bonuses''
      in cap_score
           (insider_base
            + bonus (flag insider_bonuses ''recent_buying'') 20
            + bonus (insider_ownership_pct > 25) 15) 100)"

definition tier3_valuation_weights :: "real list" where
  "tier3_valuation_weights = [0.60, 0.25, 0.15]"

definition tier3_valuation_scores :: "score_input \<Rightarrow> real list" where
  "tier3_valuation_scores data =
     [t3v_ps_score data, t3v_rel_val_score data, t3v_insider_score data]"

definition tier3_valuation :: "score_input \<Rightarrow> real" where
  "tier3_valuation data =
     py_round2 (weighted_sum (tier3_valuation_scores data) tier3_valuation_weights)"

definition t3q_scale_score :: "score_input \<Rightarrow> real" where
  "t3q_scale_score data =
     (let revenue_billions = get_num data ''revenue_billions'' 0
      in if revenue_billions > 5 then 100
         else if revenue_billions \<ge> 3 then 85
         else if revenue_billions \<ge> 2 then 75
         else if revenue_billions \<ge> 1 then 60
         else if revenue_billions \<ge> 0.5 then 45
         else 30)"

definition t3q_profit_score :: "score_input \<Rightarrow> real" where
  "t3q_profit_score data =
     (let is_profitable = get_bool data ''is_profitable'' False;
          op_margin = get_num data ''operating_margin_pct'' 0;
          path_to_profit_months = get_num data ''path_to_profit_months'' 999;
          profit_base = (if is_profitable
                         then (if op_margin > 15 then 100
                               else if op_margin \<ge> 10 then 85
                               else if op_margin \<ge> 5 then 70
                               else 60)
                         else (if path_to_profit_months < 12 then 50
                               else if path_to_profit_months < 24 then 40
                               else if path_to_profit_months < 36 then 30
                               else 15));
          profit_penalties = get_flags data ''profit_path_penalties''
      in floor_score
           (profit_base
            - bonus (flag profit_penalties ''burn_accelerating'') 20
            - bonus (flag profit_penalties ''no_guidance'') 15
            - bonus (flag profit_penalties ''frequent_raises'') 10) 0)"

definition t3q_gross_score :: "score_input \<Rightarrow> real" where
  "t3q_gross_score data =
     (let gross_margin = get_num data ''gross_margin_pct'' 0
      in if gross_margin > 75 then 100
         else if gross_margin \<ge> 65 then 90
         else if gross_margin \<ge> 55 then 80
         else if gross_margin \<ge> 45 then 65
         else if gross_margin \<ge> 35 then 50
         else 30)"

definition t3q_unit_econ_score :: "score_input \<Rightarrow> real" where
  "t3q_unit_econ_score data =
     (let ltv_cac_ratio = get_num data ''ltv_cac_ratio'' 0
      in if ltv_cac_ratio > 3 then 100
         else if ltv_cac_ratio \<ge> 2 then 75
         else if ltv_cac_ratio \<ge> 1 then 40
         else (let cac_payback_months = get_num data ''cac_payback_months'' 999;
                   gross_margin_expanding = get_bool data ''gross_margin_expanding'' False;
                   cohorts_improving = get_bool data ''cohorts_improving'' False
               in if cac_payback_months < 12 then 85
                  else if gross_margin_expanding then 70
                  else if cohorts_improving then 60
                  else 40))"

definition t3q_customer_score :: "score_input \<Rightarrow> real" where
  "t3q_customer_score data =
     (let is_saas = get_bool data ''is_saas'' False
      in if is_saas
         then (let nrr_pct = get_num data ''nrr_pct'' 100
               in if nrr_pct > 125 then 100
                  else if nrr_pct \<ge> 115 then 85
                  else if nrr_pct \<ge> 105 then 70
                  else if nrr_pct \<ge> 95 then 50
                  else 30)
         else (let concentration = get_num data ''top_customer_concentration_pct'' 100;
                   customer_growth = get_num data ''customer_growth_pct'' 0;
                   repeat_revenue = get_num data ''repeat_revenue_pct'' 0;
                   scores = [] @ [if concentration < 10 then 100
                                  else if concentration < 20 then 80
                                  else if concentration < 30 then 60
                                  else 30]
                               @ [if customer_growth > 25 then 100
                                  else if customer_growth \<ge> 15 then 80
                                  else if customer_growth \<ge> 5 then 60
                                  else 40]
                               @ [if repeat_revenue > 60 then 100
                                  else if repeat_revenue \<ge> 40 then 75
                                  else if repeat_revenue \<ge> 20 then 50
                                  else 30]
               in if scores \<noteq> [] then Max (set scores) else 50))"

definition tier3_quality_weights :: "real list" where
  "tier3_quality_weights = [0.18, 0.20, 0.22, 0.20, 0.20]"

definition tier3_quality_scores :: "score_input \<Rightarrow> real list" where
  "tier3_quality_scores data =
     [t3q_scale_score data, t3q_profit_score data, t3q_gross_score data,
      t3q_unit_econ_score data, t3q_customer_score data]"

definition tier3_quality :: "score_input \<Rightarrow> real" where
  "tier3_quality data =
     py_round2 (weighted_sum (tier3_quality_scores data) tier3_quality_weights)"

definition t3g_rev_score :: "score_input \<Rightarrow> real" where
  "t3g_rev_score data =
     (let ttm_growth = get_num data ''revenue_growth_ttm_pct'' 0
      in if ttm_growth > 50 then 100
         else if ttm_growth \<ge> 40 then 90
         else if ttm_growth \<ge> 32 then 80
         else if ttm_growth \<ge> 25 then 70
         else if ttm_growth \<ge> 20 then 55
         else if ttm_growth \<ge> 15 then 35
         else 15)"

definition t3g_accel_score :: "score_input \<Rightarrow> real" where
  "t3g_accel_score data =
     (let ttm_growth = get_num data ''revenue_growth_ttm_pct'' 0;
          quarters_accelerating = get_num data ''quarters_accelerating'' 0;
          accel_base = (if quarters_accelerating \<ge> 4
                        then (if quarters_accelerating > 4
                              then 100 + 10 * (quarters_accelerating - 4)
                              else 100)
                        else if quarters_accelerating = 3 then 90
                        else if quarters_accelerating = 2 then 75
                        else if ttm_growth \<ge> 30 then 60
                        else 30)
      in cap_score accel_base 100)"

definition t3g_forward_score :: "score_input \<Rightarrow> real" where
  "t3g_forward_score data =
     (let forward_est = get_num data ''analyst_forward_growth_pct'' 0;
          current_growth = get_num data ''revenue_growth_ttm_pct'' 0;
          forward_base = (if forward_est > 40 then 100
                          else if forward_est \<ge> 32 then 85
                          else if forward_est \<ge> 25 then 70
                          else if forward_est \<ge> 20 then 55
                          else if forward_est \<ge> 15 then 40
                          else 20)
      in cap_score (forward_base + bonus (forward_est > current_growth + 8) 20) 100)"

definition t3g_tam_score :: "score_input \<Rightarrow> real" where
  "t3g_tam_score data =
     (let tam_billions = get_num data ''tam_billions'' 0;
          penetration = get_num data ''market_penetration_pct'' 100
      in if tam_billions > 75 \<and> penetration < 8 then 100
         else if tam_billions \<ge> 50 \<and> penetration < 12 then 85
         else if tam_billions \<ge> 30 \<and> penetration < 15 then 70
         else if tam_billions \<ge> 15 \<and> penetration < 20 then 55
         else 35)"

definition t3g_drivers_score :: "score_input \<Rightarrow> real" where
  "t3g_drivers_score data =
     (let drivers_base = 50;
          driver_bonuses = get_flags data ''growth_driver_bonuses''
      in cap_score
           (drivers_base
            + bonus (flag driver_bonuses ''multiple_segments_25plus'') 30
            + bonus (flag driver_bonuses ''geographic_expansion'') 20
            + bonus (flag driver_bonuses ''new_product_launches'') 20
            + bonus (flag driver_bonuses ''platform_effects'') 20
            + bonus (flag driver_bonuses ''viral_network'') 15) 100)"

definition t3g_cyclical_score :: "score_input \<Rightarrow> real" where
  "t3g_cyclical_score data =
     (let business_type = get_str data ''business_type'' ''software''
      in if business_type \<in> set [''software'', ''saas'', ''non_cyclical''] then 100
         else if business_type = ''early_mid_cycle_secular'' then 85
         else if business_type = ''mid_cycle'' then 70
         else if business_type = ''late_cycle'' then 45
         else 25)"

definition tier3_growth_weights :: "real list" where
  "tier3_growth_weights = [0.28, 0.18, 0.18, 0.18, 0.12, 0.06]"

definition tier3_growth_scores :: "score_input \<Rightarrow> real list" where
  "tier3_growth_scores data =
     [t3g_rev_score data, t3g_accel_score data, t3g_forward_score data,
      t3g_tam_score data, t3g_drivers_score data, t3g_cyclical_score data]"

definition tier3_growth :: "score_input \<Rightarrow> real" where
  "tier3_growth data =
     py_round2 (weighted_sum (tier3_growth_scores data) tier3_growth_weights)"

definition t3m_return_score :: "score_input \<Rightarrow> real" where
  "t3m_return_score data =
     (let return_6m = get_num data ''return_6m_pct'' 0
      in if return_6m > 70 then 100
         else if return_6m \<ge> 50 then 90
         else if return_6m \<ge> 30 then 75
         else if return_6m \<ge> 15 then 55
         else if return_6m \<ge> 0 then 40
         else 60)"

definition t3m_rel_score :: "score_input \<Rightarrow> real" where
  "t3m_rel_score data =
     (let return_6m = get_num data ''return_6m_pct'' 0;
          iwm_return_6m = get_num data ''iwm_return_6m_pct'' 0;
          rel_perf = return_6m - iwm_return_6m;
          rel_base = (if rel_perf > 20 then 100
                      else if rel_perf \<ge> 12 then 80
                      else if rel_perf \<ge> 5 then 60
                      else if rel_perf \<ge> 0 then 45
                      else 30);
          analyst_bonuses = get_flags data ''analyst_momentum_bonuses''
      in cap_score
           (rel_base
            + bonus (flag analyst_bonuses ''upgrades_3plus'') 15
            + bonus (flag analyst_bonuses ''price_target_raises'') 10) 100)"

definition t3m_sentiment_score :: "score_input \<Rightarrow> real" where
  "t3m_sentiment_score data =
     (let analyst_bonuses = get_flags data ''analyst_momentum_bonuses'';
          volume_change_pct = get_num data ''volume_change_pct'' 0;
          sentiment_positive = get_bool data ''sentiment_positive'' False;
          sentiment_base = 50
      in cap_score
           (sentiment_base
            + (if volume_change_pct > 50 then 25
               else if volume_change_pct \<ge> 25 then 15
               else if volume_change_pct < -25 then -15
               else 0)
            + bonus sentiment_positive 15
            + bonus (flag analyst_bonuses ''analyst_momentum'') 15) 100)"

definition tier3_momentum_weights :: "real list" where
  "tier3_momentum_weights = [0.40, 0.35, 0.25]"

definition tier3_momentum_scores :: "score_input \<Rightarrow> real list" where
  "tier3_momentum_scores data =
     [t3m_return_score data, t3m_rel_score data, t3m_sentiment_score data]"

definition tier3_momentum :: "score_input \<Rightarrow> real" where
  "tier3_momentum data =
     py_round2 (weighted_sum (tier3_momentum_scores data) tier3_momentum_weights)"

definition t3si_market_pos_score :: "score_input \<Rightarrow> real" where
  "t3si_market_pos_score data =
     (let company_growth = get_num data ''revenue_growth_ttm_pct'' 0;
          sector_growth = get_num data ''sector_avg_growth_pct'' 0;
          growth_delta = company_growth - sector_growth
      in if growth_delta \<ge> 10 then 100
         else if growth_delta \<ge> 5 then 80
         else if growth_delta \<ge> 0 then 60
         else 30)"

definition t3si_op_lev_score :: "score_input \<Rightarrow> real" where
  "t3si_op_lev_score data =
     (let margin_expansion_bps = get_num data ''margin_trend_bps_per_year'' 0
      in if margin_expansion_bps > 400 then 100
         else if margin_expansion_bps \<ge> 250 then 85
         else if margin_expansion_bps \<ge> 150 then 70
         else if margin_expansion_bps \<ge> 100 then 55
         else 35)"

definition t3si_moat_score :: "score_input \<Rightarrow> real" where
  "t3si_moat_score data =
     (let moat_base = 50;
          moat_bonuses = get_flags data ''moat_formation_bonuses''
      in cap_score
           (moat_base
            + bonus (flag moat_bonuses ''network_effects'') 30
            + bonus (flag moat_bonuses ''switching_costs'') 25
            + bonus (flag moat_bonuses ''scale_advantages'') 20
            + bonus (flag moat_bonuses ''data_ip_moat'') 20
            + bonus (flag moat_bonuses ''brand_emerging'') 15) 100)"

definition t3si_partnership_score :: "score_input \<Rightarrow> real" where
  "t3si_partnership_score data =
     (let partnership_base = 50;
          partnership_bonuses = get_flags data ''partnership_bonuses''
      in cap_score
           (partnership_base
            + bonus (flag partnership_bonuses ''major_tech_partners'') 30
            + bonus (flag partnership_bonuses ''gov_enterprise'') 25
            + bonus (flag partnership_bonuses ''critical_integrations'') 20
            + bonus (flag partnership_bonuses ''ecosystem_role'') 15) 100)"

definition tier3_scale_inflection_weights :: "real list" where
  "tier3_scale_inflection_weights = [0.30, 0.30, 0.25, 0.15]"

definition tier3_scale_inflection_scores :: "score_input \<Rightarrow> real list" where
  "tier3_scale_inflection_scores data =
     [t3si_market_pos_score data, t3si_op_lev_score data, t3si_moat_score data,
      t3si_partnership_score data]"

definition tier3_scale_inflection :: "score_input \<Rightarrow> real" where
  "tier3_scale_inflection data =
     py_round2 (weighted_sum (tier3_scale_inflection_scores data)
                  tier3_scale_inflection_weights)"

definition tier3_composite_weights :: "real list" where
  "tier3_composite_weights = [0.15, 0.22, 0.38, 0.15, 0.10]"

definition calculate_tier3_composite :: "score_input \<Rightarrow> error + real \<times> (string \<times> real) list" where
  "calculate_tier3_composite data =
     (let v_score = tier3_valuation data;
          q_score = tier3_quality data;
          g_score = tier3_growth data;
          m_score = tier3_momentum data;
          si_score = tier3_scale_inflection data
      in Inr (py_round2 (weighted_sum [v_score, q_score, g_score, m_score, si_score]
                           tier3_composite_weights),
              [(''Valuation'', v_score), (''Quality'', q_score), (''Growth'', g_score),
               (''Momentum'', m_score), (''Scale_Inflection'', si_score)]))"

subsection \<open>Tier 4: Small-Cap Moonshots\<close>

definition t4v_ps_score :: "score_input \<Rightarrow> real" where
  "t4v_ps_score data =
     (let ps_ratio = get_num data ''ps_ratio'' 999;
          growth_rate = get_num data ''revenue_growth_ttm_pct'' 0;
          ps_base = (if ps_ratio < 12 then 100
                     else if ps_ratio < 20 then 85
                     else if ps_ratio < 35 then 70
                     else if ps_ratio < 50 then 50
                     else if ps_ratio < 75 then 35
                     else 25)
      in cap_score
           (if growth_rate > 75 \<and> 35 \<le> ps_ratio \<and> ps_ratio \<le> 50 then ps_base + 35
            else if growth_rate > 100 \<and> 50 \<le> ps_ratio \<and> ps_ratio \<le> 75 then ps_base + 30
            else if growth_rate > 100 \<and> ps_ratio > 75 then ps_base + 25
            else ps_base) 100)"

definition t4v_rel_val_score :: "score_input \<Rightarrow> error + real" where
  "t4v_rel_val_score data =
     (let ps_ratio = get_num data ''ps_ratio'' 999;
          sector_median_ps = get_num data ''sector_median_ps'' ps_ratio
      in and_then (if sector_median_ps > 0 then py_div ps_ratio sector_median_ps else Inr 1.0)
           (\<lambda>ratio_to_sector.
              Inr (if ratio_to_sector < 1.0 then 100
                   else if ratio_to_sector \<le> 1.0 then 75
                   else if ratio_to_sector \<le> 2.0 then 60
                   else if ratio_to_sector \<le> 3.0 then 40
                   else 20)))"

definition t4v_insider_score :: "score_input \<Rightarrow> real" where
  "t4v_insider_score data =
     (let insider_pct = get_num data ''insider_ownership_pct'' 0;
          insider_base = (if insider_pct > 25 then 100
                          else if insider_pct \<ge> 20 then 90
                          else if insider_pct \<ge> 15 then 80
                          else if insider_pct \<ge> 10 then 65
                          else if insider_pct \<ge> 5 then 45
                          else 30);
          insider_bonuses = get_flags data ''insider_bonuses''
      in cap_score
           (insider_base
            + bonus (flag insider_bonuses ''recent_buying'') 20
            + bonus (insider_pct > 30) 20) 100)"

definition tier4_valuation_weights :: "real list" where
  "tier4_valuation_weights = [0.60, 0.25, 0.15]"

definition tier4_valuation_scores :: "score_input \<Rightarrow> error + real list" where
  "tier4_valuation_scores data =
     and_then (t4v_rel_val_score data) (\<lambda>rel_val_score.
     Inr [t4v_ps_score data, rel_val_score, t4v_insider_score data])"

definition tier4_valuation :: "score_input \<Rightarrow> error + real" where
  "tier4_valuation data =
     and_then (tier4_valuation_scores data) (\<lambda>scores.
     Inr (py_round2 (weighted_sum scores tier4_valuation_weights)))"

definition t4q_gross_score :: "score_input \<Rightarrow> real" where
  "t4q_gross_score data =
     (let gross_margin = get_num data ''gross_margin_pct'' 0
      in if gross_margin > 70 then 100
         else if gross_margin \<ge> 60 then 85
         else if gross_margin \<ge> 50 then 70
         else if gross_margin \<ge> 40 then 50
         else if gross_margin \<ge> 30 then 35
         else 20)"

definition t4q_rev_quality_score :: "score_input \<Rightarrow> real" where
  "t4q_rev_quality_score data =
     (let rev_quality_base = 50;
          recurring_pct = get_num data ''recurring_revenue_pct'' 0;
          nrr_pct = get_num data ''nrr_pct'' 100;
          top_customer_pct = get_num data ''top_customer_concentration_pct'' 100;
          top_3_customers_pct = get_num data ''top_3_concentration_pct'' 100
      in cap_score (floor_score
           (rev_quality_base
            + (if recurring_pct > 70 then 30 else if recurring_pct \<ge> 50 then 20 else 0)
            + bonus (nrr_pct > 110) 20
            + (if top_customer_pct < 10 then 15 else if top_customer_pct > 50 then -35 else 0)
            + (if top_3_customers_pct < 25 then 5
               else if top_3_customers_pct > 30 then -20 else 0)) 0) 100)"

definition t4q_unit_econ_score :: "score_input \<Rightarrow> real" where
  "t4q_unit_econ_score data =
     (let ltv_cac = get_num data ''ltv_cac_ratio'' 0
      in if ltv_cac > 3 then 100
         else if ltv_cac \<ge> 2 then 75
         else if ltv_cac \<ge> 1 then 40
         else (let cac_payback = get_num data ''cac_payback_months'' 999
               in if cac_payback < 12 then 85
                  else if get_bool data ''gross_margin_expanding'' False then 70
                  else if get_bool data ''cohorts_improving'' False then 60
                  else 40))"

definition t4q_profit_path_score :: "score_input \<Rightarrow> real" where
  "t4q_profit_path_score data =
     (let is_profitable = get_bool data ''is_profitable'' False;
          path_months = get_num data ''path_to_profit_months'' 999;
          profit_path_base = (if is_profitable then 100
                              else if path_months < 12 then 80
                              else if path_months < 24 then 60
                              else if path_months < 36 then 40
                              else if path_months < 48 then 25
                              else 15);
          penalties = get_flags data ''profit_path_penalties''
      in floor_score
           (profit_path_base
            - bonus (flag penalties ''burn_accelerating'') 25
            - bonus (flag penalties ''no_guidance'') 15
            - bonus (flag penalties ''frequent_raises'') 10) 0)"

definition tier4_quality_weights :: "real list" where
  "tier4_quality_weights = [0.30, 0.30, 0.20, 0.20]"

definition tier4_quality_scores :: "score_input \<Rightarrow> real list" where
  "tier4_quality_scores data =
     [t4q_gross_score data, t4q_rev_quality_score data, t4q_unit_econ_score data,
      t4q_profit_path_score data]"

definition tier4_quality :: "score_input \<Rightarrow> real" where
  "tier4_quality data =
     py_round2 (weighted_sum (tier4_quality_scores data) tier4_quality_weights)"

definition t4g_rev_score :: "score_input \<Rightarrow> real" where
  "t4g_rev_score data =
     (let ttm_growth = get_num data ''revenue_growth_ttm_pct'' 0
      in if ttm_growth > 100 then 100
         else if ttm_growth \<ge> 75 then 95
         else if ttm_growth \<ge> 55 then 85
         else if ttm_growth \<ge> 40 then 70
         else if ttm_growth \<ge> 30 then 50
         else if ttm_growth \<ge> 20 then 30
         else 15)"

definition t4g_consist_score :: "score_input \<Rightarrow> real" where
  "t4g_consist_score data =
     (let ttm_growth = get_num data ''revenue_growth_ttm_pct'' 0;
          quarters_accel = get_num data ''quarters_accelerating'' 0;
          consist_base = (if quarters_accel \<ge> 5 then 100 + (10 * (quarters_accel - 5))
                          else if quarters_accel = 4 then 90
                          else if quarters_accel = 3 then 80
                          else if ttm_growth \<ge> 40 then 70
                          else 30)
      in cap_score consist_base 100)"

definition t4g_tam_score :: "score_input \<Rightarrow> real" where
  "t4g_tam_score data =
     (let tam_billions = get_num data ''tam_billions'' 0
      in if tam_billions > 150 then 100
         else if tam_billions \<ge> 100 then 90
         else if tam_billions \<ge> 50 then 75
         else if tam_billions \<ge> 25 then 55
         else if tam_billions \<ge> 10 then 35
         else 20)"

definition t4g_penetration_score :: "score_input \<Rightarrow> real" where
  "t4g_penetration_score data =
     (let penetration_pct = get_num data ''market_penetration_pct'' 100
      in if penetration_pct < 3 then 100
         else if penetration_pct < 5 then 90
         else if penetration_pct < 10 then 75
         else if penetration_pct < 15 then 55
         else 35)"

definition t4g_drivers_score :: "score_input \<Rightarrow> real" where
  "t4g_drivers_score data =
     (let drivers_base = 50;
          driver_bonuses = get_flags data ''growth_driver_bonuses''
      in cap_score
           (drivers_base
            + bonus (flag driver_bonuses ''network_effects'') 25
            + bonus (flag driver_bonuses ''viral_growth_50plus'') 25
            + bonus (flag driver_bonuses ''platform_forming'') 20
            + bonus (flag driver_bonuses ''multiple_streams_35plus'') 20
            + bonus (flag driver_bonuses ''gov_enterprise_accelerating'') 20) 100)"

definition t4g_forward_score :: "score_input \<Rightarrow> real" where
  "t4g_forward_score data =
     (let forward_est = get_num data ''analyst_forward_growth_pct'' 0;
          current_growth = get_num data ''revenue_growth_ttm_pct'' 0;
          forward_base = (if forward_est > 60 then 100
                          else if forward_est \<ge> 50 then 90
                          else if forward_est \<ge> 40 then 80
                          else if forward_est \<ge> 30 then 65
                          else if forward_est \<ge> 20 then 45
                          else 25)
      in cap_score (forward_base + bonus (forward_est > current_growth + 12) 20) 100)"

definition t4g_catalyst_score :: "score_input \<Rightarrow> real" where
  "t4g_catalyst_score data =
     (let catalyst_base = 50;
          catalyst_bonuses = get_flags data ''catalyst_bonuses''
      in cap_score
           (catalyst_base
            + bonus (flag catalyst_bonuses ''major_launch_6mo'') 30
            + bonus (flag catalyst_bonuses ''market_expansion'') 25
            + bonus (flag catalyst_bonuses ''partnership_expected'') 25
            + bonus (flag catalyst_bonuses ''regulatory_milestone'') 30
            + bonus (flag catalyst_bonuses ''index_inclusion'') 20) 100)"

definition tier4_growth_weights :: "real list" where
  "tier4_growth_weights = [0.28, 0.15, 0.15, 0.10, 0.15, 0.12, 0.05]"

definition tier4_growth_scores :: "score_input \<Rightarrow> real list" where
  "tier4_growth_scores data =
     [t4g_rev_score data, t4g_consist_score data, t4g_tam_score data,
      t4g_penetration_score data, t4g_drivers_score data, t4g_forward_score data,
      t4g_catalyst_score data]"

definition tier4_growth :: "score_input \<Rightarrow> real" where
  "tier4_growth data =
     py_round2 (weighted_sum (tier4_growth_scores data) tier4_growth_weights)"

definition t4m_return_score :: "score_input \<Rightarrow> real" where
  "t4m_return_score data =
     (let return_6m = get_num data ''return_6m_pct'' 0
      in if return_6m > 100 then 100
         else if return_6m \<ge> 70 then 95
         else if return_6m \<ge> 50 then 85
         else if return_6m \<ge> 30 then 70
         else if return_6m \<ge> 15 then 50
         else if return_6m \<ge> 0 then 35
         else 60)"

definition t4m_rel_score :: "score_input \<Rightarrow> real" where
  "t4m_rel_score data =
     (let return_6m = get_num data ''return_6m_pct'' 0;
          iwo_return_6m = get_num data ''iwo_return_6m_pct'' 0;
          rel_perf = return_6m - iwo_return_6m
      in if rel_perf > 30 then 100
         else if rel_perf \<ge> 20 then 85
         else if rel_perf \<ge> 10 then 65
         else if rel_perf \<ge> 0 then 45
         else 25)"

definition t4m_sentiment_score :: "score_input \<Rightarrow> real" where
  "t4m_sentiment_score data =
     (let sentiment_base = 50;
          sentiment_bonuses = get_flags data ''sentiment_bonuses'';
          sentiment_penalties = get_flags data ''sentiment_penalties''
      in cap_score (floor_score
           (sentiment_base
            + bonus (flag sentiment_bonuses ''rising_mentions_bullish'') 25
            + bonus (flag sentiment_bonuses ''positive_reddit'') 20
            + bonus (flag sentiment_bonuses ''analyst_upgrades_3plus'') 25
            + bonus (flag sentiment_bonuses ''target_increases'') 20
            + bonus (flag sentiment_bonuses ''positive_media'') 15
            - bonus (flag sentiment_penalties ''negative_trending'') 25
            - bonus (flag sentiment_penalties ''unsustainable_meme'') 20) 0) 100)"

definition t4m_volume_score :: "score_input \<Rightarrow> real" where
  "t4m_volume_score data =
     (let volume_change_30d_vs_90d = get_num data ''volume_change_pct'' 0
      in if volume_change_30d_vs_90d > 75 then 100
         else if volume_change_30d_vs_90d \<ge> 50 then 85
         else if volume_change_30d_vs_90d \<ge> 25 then 65
         else if \<bar>volume_change_30d_vs_90d\<bar> \<le> 25 then 50
         else 30)"

definition tier4_momentum_weights :: "real list" where
  "tier4_momentum_weights = [0.40, 0.30, 0.20, 0.10]"

definition tier4_momentum_scores :: "score_input \<Rightarrow> real list" where
  "tier4_momentum_scores data =
     [t4m_return_score data, t4m_rel_score data, t4m_sentiment_score data,
      t4m_volume_score data]"

definition tier4_momentum :: "score_input \<Rightarrow> real" where
  "tier4_momentum data =
     py_round2 (weighted_sum (tier4_momentum_scores data) tier4_momentum_weights)"

definition t4d_disruption_score :: "score_input \<Rightarrow> real" where
  "t4d_disruption_score data =
     (let disruption_type = get_str data ''disruption_type'' ''incremental''
      in if disruption_type = ''attacking_100b_plus'' then 100
         else if disruption_type = ''creating_new_category'' then 95
         else if disruption_type = ''significant_share_gains'' then 85
         else if disruption_type = ''niche_10_50b'' then 70
         else 50)"

definition t4d_tech_moat_score :: "score_input \<Rightarrow> real" where
  "t4d_tech_moat_score data =
     (let tech_moat_base = 50;
          tech_bonuses = get_flags data ''tech_moat_bonuses''
      in cap_score
           (tech_moat_base
            + bonus (flag tech_bonuses ''proprietary_ai_ml'') 30
            + bonus (flag tech_bonuses ''strong_patents'') 25
            + bonus (flag tech_bonuses ''unique_data_assets'') 25
            + bonus (flag tech_bonuses ''first_mover_scale'') 20
            + bonus (flag tech_bonuses ''unique_supply_chain'') 25) 100)"

definition t4d_comp_dyn_score :: "score_input \<Rightarrow> real" where
  "t4d_comp_dyn_score data =
     (let market_structure = get_str data ''market_structure'' ''highly_competitive''
      in if market_structure = ''winner_take_most'' then 100
         else if market_structure = ''oligopoly_forming'' then 80
         else if market_structure = ''crowded_differentiated'' then 60
         else if market_structure = ''highly_competitive'' then 40
         else 20)"

definition t4d_catalyst_score :: "score_input \<Rightarrow> real" where
  "t4d_catalyst_score data =
     (let catalyst_base = 50;
          catalyst_bonuses = get_flags data ''catalyst_bonuses''
      in cap_score
           (catalyst_base
            + bonus (flag catalyst_bonuses ''major_launch_6mo'') 30
            + bonus (flag catalyst_bonuses ''partnership_expected'') 25
            + bonus (flag catalyst_bonuses ''market_expansion'') 25
            + bonus (flag catalyst_bonuses ''regulatory_approval'') 30
            + bonus (flag catalyst_bonuses ''acquisition_target'') 20) 100)"

definition tier4_disruption_weights :: "real list" where
  "tier4_disruption_weights = [0.35, 0.25, 0.25, 0.15]"

definition tier4_disruption_scores :: "score_input \<Rightarrow> real list" where
  "tier4_disruption_scores data =
     [t4d_disruption_score data, t4d_tech_moat_score data, t4d_comp_dyn_score data,
      t4d_catalyst_score data]"

definition tier4_disruption :: "score_input \<Rightarrow> real" where
  "tier4_disruption data =
     py_round2 (weighted_sum (tier4_disruption_scores data) tier4_disruption_weights)"

definition tier4_composite_weights :: "real list" where
  "tier4_composite_weights = [0.10, 0.15, 0.40, 0.15, 0.20]"

definition calculate_tier4_composite :: "score_input \<Rightarrow> error + real \<times> (string \<times> real) list" where
  "calculate_tier4_composite data =
     and_then (tier4_valuation data) (\<lambda>v_score.
     let q_score = tier4_quality data;
         g_score = tier4_growth data;
         m_score = tier4_momentum data;
         d_score = tier4_disruption data
     in Inr (py_round2 (weighted_sum [v_score, q_score, g_score, m_score, d_score]
                          tier4_composite_weights),
             [(''Valuation'', v_score), (''Quality'', q_score), (''Growth'', g_score),
              (''Momentum'', m_score), (''Disruption'', d_score)]))"

subsection \<open>Position size and the entry point\<close>

definition base_allocations :: "int \<rightharpoonup> real" where
  "base_allocations = map_of [(1, 10.0), (2, 7.0), (3, 5.0), (4, 3.0)]"

definition vol_multipliers :: "int \<rightharpoonup> real" where
  "vol_multipliers = map_of [(1, 0.75), (2, 1.0), (3, 1.3), (4, 1.5)]"

definition calculate_position_size :: "int \<Rightarrow> real \<Rightarrow> real \<Rightarrow> error + real" where
  "calculate_position_size tier score beta =
     and_then (subscript base_allocations tier) (\<lambda>base.
     and_then (subscript vol_multipliers tier) (\<lambda>vol_mult.
     let vol_adjustment = 1 + ((beta - 1) * vol_mult)
     in and_then (py_div (base * (score / 100.0)) vol_adjustment) (\<lambda>position.
        Inr (of_int (py_round (position * 2)) / 2))))"

text \<open>
  The result dictionary; its fields carry the prefix \<open>r_\<close>, and \<^verbatim>\<open>components\<close>
  keeps the insertion order of the source. \<^verbatim>\<open>stars\<close> is the empty string in every
  branch of the rating ladder.
\<close>

record score_result =
  r_ticker :: string
  r_tier :: int
  r_tier_name :: string
  r_market_cap_billions :: real
  r_composite_score :: real
  r_rating :: string
  r_stars :: string
  r_position_size_pct :: real
  r_min_score_for_tier :: real
  r_score_buffer :: real
  r_components :: "(string \<times> real) list"
  r_beta :: real

definition rating_of :: "real \<Rightarrow> string" where
  "rating_of composite =
     (if composite \<ge> 80 then ''Strong Buy''
      else if composite \<ge> 70 then ''Buy''
      else if composite \<ge> 60 then ''Hold''
      else if composite \<ge> 50 then ''Reduce''
      else ''Sell'')"

definition calculate_score :: "string \<Rightarrow> score_input \<Rightarrow> error + score_result" where
  "calculate_score ticker data =
     (let market_cap_billions = get_num data ''market_cap_billions'' 0;
          tier = determine_tier market_cap_billions
      in and_then (if tier = 1 then calculate_tier1_composite data
                   else if tier = 2 then calculate_tier2_composite data
                   else if tier = 3 then calculate_tier3_composite data
                   else calculate_tier4_composite data) (\<lambda>(composite, components).
         let rating = rating_of composite;
             stars = [];
             beta = get_num data ''beta'' 1.0
         in and_then (calculate_position_size tier composite beta) (\<lambda>position_size.
            and_then (subscript TIER_DEFINITIONS tier) (\<lambda>tier_def.
            Inr \<lparr>r_ticker = ticker, r_tier = tier, r_tier_name = name tier_def,
                 r_market_cap_billions = market_cap_billions,
                 r_composite_score = composite, r_rating = rating, r_stars = stars,
                 r_position_size_pct = position_size,
                 r_min_score_for_tier = min_score tier_def,
                 r_score_buffer = py_round2 (composite - min_score tier_def),
                 r_components = components, r_beta = beta\<rparr>))))"

subsection \<open>Notions used to state the properties\<close>

text \<open>A score lies in the closed interval from 0 to 100.\<close>

definition in_range :: "real \<Rightarrow> bool" where
  "in_range s \<longleftrightarrow> 0 \<le> s \<and> s \<le> 100"

text \<open>Weights of a convex combination: none negative, and they sum to one.\<close>

definition convex_weights :: "real list \<Rightarrow> bool" where
  "convex_weights ws \<longleftrightarrow> (\<forall>w \<in> set ws. 0 \<le> w) \<and> sum_list ws = 1"

text \<open>A record that holds numeric fields only.\<close>

definition num_input :: "(string \<times> real) list \<Rightarrow> score_input" where
  "num_input kvs = \<lparr>nums = map_of kvs, bools = Map.empty, strs = Map.empty, flag_sets = Map.empty\<rparr>"

text \<open>
  The record of the Tier-1 end-to-end scenario. It is the \<^verbatim>\<open>googl_data\<close> of the
  example at the end of the source file without its empty
  \<^verbatim>\<open>future_growth_bonuses\<close>, which reads the same absent as empty.
\<close>

definition googl_data :: score_input where
  "googl_data =
     \<lparr>nums = map_of
        [(''market_cap_billions'', 1800), (''pe_ratio'', 22), (''historical_pe_avg'', 25),
         (''fcf_yield_pct'', 4.17), (''peg_ratio'', 1.4), (''roic_pct'', 24.08),
         (''operating_margin_pct'', 32.08), (''margin_trend_bps_per_year'', 150),
         (''earnings_beat_rate_pct'', 83.3), (''cash_conversion_ratio'', 1.25),
         (''revenue_cagr_3yr_pct'', 11.86), (''revenue_growth_recent_yoy_pct'', 16),
         (''eps_cagr_3yr_pct'', 15), (''tam_billions'', 500), (''market_share_pct'', 15),
         (''analyst_forward_growth_pct'', 12), (''return_12m_pct'', 35.2),
         (''spy_return_12m_pct'', 25), (''price'', 140), (''ma_50'', 135), (''ma_200'', 125),
         (''net_cash_billions'', 100), (''fcf_billions'', 75), (''beta'', 1.1)],
      bools = Map.empty,
      strs = Map.empty,
      flag_sets = map_of
        [(''moat_bonuses'',
            map_of [(''network_effects'', True), (''economies_of_scale'', True)]),
         (''mgmt_bonuses'', map_of [(''consistent_buybacks'', True)]),
         (''capital_allocation_bonuses'',
            map_of [(''buybacks_rnd_gt_10pct'', True), (''value_creating_ma'', True)])]\<rparr>"





section \<open>Properties\<close>

subsection \<open>Rounding, weighted averages and brackets\<close>

lemma py_round_ge: "of_int a \<le> x \<Longrightarrow> a \<le> py_round x"
  unfolding py_round_def Let_def by (auto simp: le_floor_iff) linarith+

lemma py_round_le: "x \<le> of_int b \<Longrightarrow> py_round x \<le> b"
  unfolding py_round_def Let_def by (auto simp: floor_le_iff)


lemma py_round2_range: "in_range x \<Longrightarrow> in_range (py_round2 x)"
proof -
  assume r: "in_range x"
  have "of_int (0::int) \<le> x * 100" using r by (simp add: in_range_def)
  then have a: "0 \<le> py_round (x * 100)" by (rule py_round_ge)
  have "x * 100 \<le> of_int (10000::int)" using r by (simp add: in_range_def)
  then have b: "py_round (x * 100) \<le> 10000" by (rule py_round_le)
  have "(of_int (py_round (x * 100)) :: real) \<le> of_int 10000" using b by (simp only: of_int_le_iff)
  with a show ?thesis by (simp add: py_round2_def in_range_def)
qed

lemma weighted_sum_bounds:
  "length scores = length weights \<Longrightarrow> \<forall>s \<in> set scores. in_range s \<Longrightarrow> \<forall>w \<in> set weights. 0 \<le> w
   \<Longrightarrow> 0 \<le> weighted_sum scores weights \<and> weighted_sum scores weights \<le> 100 * sum_list weights"
proof (induction scores weights rule: list_induct2)
  case Nil
  then show ?case by (simp add: weighted_sum_def)
next
  case (Cons s ss w ws)
  then have ih: "0 \<le> weighted_sum ss ws" "weighted_sum ss ws \<le> 100 * sum_list ws"
    by simp_all
  have s: "0 \<le> s" "s \<le> 100" and w: "0 \<le> w" using Cons.prems by (simp_all add: in_range_def)
  have "0 \<le> s * w" using s w by simp
  moreover have "s * w \<le> 100 * w" using s w by (simp add: mult_right_mono)
  moreover have "weighted_sum (s # ss) (w # ws) = s * w + weighted_sum ss ws"
    by (simp add: weighted_sum_def)
  ultimately show ?case using ih by (simp add: algebra_simps)
qed

lemma weighted_sum_range:
  "length scores = length weights \<Longrightarrow> \<forall>s \<in> set scores. in_range s \<Longrightarrow> \<forall>w \<in> set weights. 0 \<le> w
   \<Longrightarrow> sum_list weights = 1 \<Longrightarrow> in_range (weighted_sum scores weights)"
  using weighted_sum_bounds [of scores weights] by (simp add: in_range_def)

lemma bracket_loop_in: "bracket_loop v bs = Some s \<Longrightarrow> s \<in> snd ` set bs"
  by (induction v bs rule: bracket_loop.induct) (auto split: if_splits)

lemma bracket_score_total:
  "bs \<noteq> [] \<Longrightarrow> \<exists>s. bracket_score v bs = Inr s \<and> s \<in> snd ` set bs"
proof (cases "bracket_loop v bs")
  case None
  assume "bs \<noteq> []"
  then show ?thesis using None by (simp add: bracket_score_def)
next
  case (Some s)
  then show ?thesis using bracket_loop_in [OF Some] by (simp add: bracket_score_def)
qed

lemma bracket_score_range:
  "bs \<noteq> [] \<Longrightarrow> \<forall>p \<in> set bs. in_range (snd p) \<Longrightarrow> \<exists>s. bracket_score v bs = Inr s \<and> in_range s"
  using bracket_score_total [of bs v] by auto

lemma bonus_nonneg [simp]: "0 \<le> n \<Longrightarrow> 0 \<le> bonus b n"
  by (simp add: bonus_def)

lemma bonus_le [simp]: "0 \<le> n \<Longrightarrow> bonus b n \<le> n"
  by (simp add: bonus_def)

lemma in_range_cap: "0 \<le> x \<Longrightarrow> in_range (cap_score x 100)"
  by (simp add: in_range_def cap_score_def)

lemma in_range_floor: "x \<le> 100 \<Longrightarrow> in_range (floor_score x 0)"
  by (simp add: in_range_def floor_score_def)

lemma in_range_cap_floor: "in_range (cap_score (floor_score x 0) 100)"
  by (simp add: in_range_def cap_score_def floor_score_def)

lemma if_nonneg: "0 \<le> a \<Longrightarrow> 0 \<le> b \<Longrightarrow> (0::real) \<le> (if c then a else b)"
  by simp

lemma if_le_100: "a \<le> 100 \<Longrightarrow> b \<le> 100 \<Longrightarrow> (if c then a else b) \<le> (100::real)"
  by simp

lemma diff_bonus_le_100: "x \<le> 100 \<Longrightarrow> 0 \<le> n \<Longrightarrow> x - bonus b n \<le> 100"
  using bonus_nonneg [of n b] by linarith

lemma Max_list_range: "xs \<noteq> [] \<Longrightarrow> \<forall>x \<in> set xs. in_range x \<Longrightarrow> in_range (Max (set xs))"
  using Max_in [of "set xs"] by auto

subsection \<open>Every sub-score lies between 0 and 100\<close>

lemma in_range_if: "in_range a \<Longrightarrow> in_range b \<Longrightarrow> in_range (if c then a else b)"
  by simp

lemmas range_intros = in_range_if in_range_cap_floor in_range_cap in_range_floor
  add_nonneg_nonneg bonus_nonneg if_nonneg diff_bonus_le_100 if_le_100

lemma t1v_peg_score_range: "in_range (t1v_peg_score data)"
  by (simp add: t1v_peg_score_def Let_def in_range_def technical_setup_def)

lemma t1m_technical_score_range: "in_range (t1m_technical_score data)"
  by (simp add: t1m_technical_score_def Let_def in_range_def technical_setup_def)

lemma t1fh_net_cash_score_range: "in_range (t1fh_net_cash_score data)"
  by (simp add: t1fh_net_cash_score_def Let_def in_range_def technical_setup_def)

lemma t2v_peg_score_range: "in_range (t2v_peg_score data)"
  by (simp add: t2v_peg_score_def Let_def in_range_def technical_setup_def)

lemma t2v_rel_val_score_range: "in_range (t2v_rel_val_score data)"
  by (simp add: t2v_rel_val_score_def Let_def in_range_def technical_setup_def)

lemma t2q_profit_score_range: "in_range (t2q_profit_score data)"
  by (simp add: t2q_profit_score_def Let_def in_range_def technical_setup_def)

lemma t2q_gross_margin_score_range: "in_range (t2q_gross_margin_score data)"
  by (simp add: t2q_gross_margin_score_def Let_def in_range_def technical_setup_def)

lemma t2q_margin_traj_score_range: "in_range (t2q_margin_traj_score data)"
  by (simp add: t2q_margin_traj_score_def Let_def in_range_def technical_setup_def)

lemma t2q_repeat_revenue_option_range: "in_range (t2q_repeat_revenue_option data)"
  by (simp add: t2q_repeat_revenue_option_def Let_def in_range_def technical_setup_def)

lemma t2q_churn_option_range: "in_range (t2q_churn_option data)"
  by (simp add: t2q_churn_option_def Let_def in_range_def technical_setup_def)

lemma t2q_customer_growth_option_range: "in_range (t2q_customer_growth_option data)"
  by (simp add: t2q_customer_growth_option_def Let_def in_range_def technical_setup_def)

lemma t2q_concentration_option_range: "in_range (t2q_concentration_option data)"
  by (simp add: t2q_concentration_option_def Let_def in_range_def technical_setup_def)

lemma t2g_rev_growth_score_range: "in_range (t2g_rev_growth_score data)"
  by (simp add: t2g_rev_growth_score_def Let_def in_range_def technical_setup_def)

lemma t2g_consistency_score_range: "in_range (t2g_consistency_score data)"
  by (simp add: t2g_consistency_score_def Let_def in_range_def technical_setup_def)

lemma t2g_tam_score_range: "in_range (t2g_tam_score data)"
  by (simp add: t2g_tam_score_def Let_def in_range_def technical_setup_def)

lemma t2g_cyclicality_score_range: "in_range (t2g_cyclicality_score data)"
  by (simp add: t2g_cyclicality_score_def Let_def in_range_def technical_setup_def)

lemma t2m_technical_score_range: "in_range (t2m_technical_score data)"
  by (simp add: t2m_technical_score_def Let_def in_range_def technical_setup_def)

lemma t2sm_comp_pos_score_range: "in_range (t2sm_comp_pos_score data)"
  by (simp add: t2sm_comp_pos_score_def Let_def in_range_def technical_setup_def)

lemma t2sm_op_leverage_score_range: "in_range (t2sm_op_leverage_score data)"
  by (simp add: t2sm_op_leverage_score_def Let_def in_range_def technical_setup_def)

lemma t3v_rel_val_score_range: "in_range (t3v_rel_val_score data)"
  by (simp add: t3v_rel_val_score_def Let_def in_range_def technical_setup_def)

lemma t3q_scale_score_range: "in_range (t3q_scale_score data)"
  by (simp add: t3q_scale_score_def Let_def in_range_def technical_setup_def)

lemma t3q_gross_score_range: "in_range (t3q_gross_score data)"
  by (simp add: t3q_gross_score_def Let_def in_range_def technical_setup_def)

lemma t3q_unit_econ_score_range: "in_range (t3q_unit_econ_score data)"
  by (simp add: t3q_unit_econ_score_def Let_def in_range_def technical_setup_def)

lemma t3g_rev_score_range: "in_range (t3g_rev_score data)"
  by (simp add: t3g_rev_score_def Let_def in_range_def technical_setup_def)

lemma t3g_tam_score_range: "in_range (t3g_tam_score data)"
  by (simp add: t3g_tam_score_def Let_def in_range_def technical_setup_def)

lemma t3g_cyclical_score_range: "in_range (t3g_cyclical_score data)"
  by (simp add: t3g_cyclical_score_def Let_def in_range_def technical_setup_def)

lemma t3m_return_score_range: "in_range (t3m_return_score data)"
  by (simp add: t3m_return_score_def Let_def in_range_def technical_setup_def)

lemma t3si_market_pos_score_range: "in_range (t3si_market_pos_score data)"
  by (simp add: t3si_market_pos_score_def Let_def in_range_def technical_setup_def)

lemma t3si_op_lev_score_range: "in_range (t3si_op_lev_score data)"
  by (simp add: t3si_op_lev_score_def Let_def in_range_def technical_setup_def)

lemma t4q_gross_score_range: "in_range (t4q_gross_score data)"
  by (simp add: t4q_gross_score_def Let_def in_range_def technical_setup_def)

lemma t4q_unit_econ_score_range: "in_range (t4q_unit_econ_score data)"
  by (simp add: t4q_unit_econ_score_def Let_def in_range_def technical_setup_def)

lemma t4g_rev_score_range: "in_range (t4g_rev_score data)"
  by (simp add: t4g_rev_score_def Let_def in_range_def technical_setup_def)

lemma t4g_tam_score_range: "in_range (t4g_tam_score data)"
  by (simp add: t4g_tam_score_def Let_def in_range_def technical_setup_def)

lemma t4g_penetration_score_range: "in_range (t4g_penetration_score data)"
  by (simp add: t4g_penetration_score_def Let_def in_range_def technical_setup_def)

lemma t4m_return_score_range: "in_range (t4m_return_score data)"
  by (simp add: t4m_return_score_def Let_def in_range_def technical_setup_def)

lemma t4m_rel_score_range: "in_range (t4m_rel_score data)"
  by (simp add: t4m_rel_score_def Let_def in_range_def technical_setup_def)

lemma t4m_volume_score_range: "in_range (t4m_volume_score data)"
  by (simp add: t4m_volume_score_def Let_def in_range_def technical_setup_def)

lemma t4d_disruption_score_range: "in_range (t4d_disruption_score data)"
  by (simp add: t4d_disruption_score_def Let_def in_range_def technical_setup_def)

lemma t4d_comp_dyn_score_range: "in_range (t4d_comp_dyn_score data)"
  by (simp add: t4d_comp_dyn_score_def Let_def in_range_def technical_setup_def)

lemma t1q_moat_score_range: "in_range (t1q_moat_score data)"
  unfolding t1q_moat_score_def Let_def by (intro range_intros) (simp_all add: in_range_def)

lemma t1q_mgmt_score_range: "in_range (t1q_mgmt_score data)"
  unfolding t1q_mgmt_score_def Let_def by (intro range_intros) (simp_all add: in_range_def)

lemma t1g_consistency_score_range: "in_range (t1g_consistency_score data)"
  unfolding t1g_consistency_score_def Let_def by (intro range_intros) (simp_all add: in_range_def)

lemma t1g_future_score_range: "in_range (t1g_future_score data)"
  unfolding t1g_future_score_def Let_def by (intro range_intros) (simp_all add: in_range_def)

lemma t1fh_cap_alloc_score_range: "in_range (t1fh_cap_alloc_score data)"
  unfolding t1fh_cap_alloc_score_def Let_def by (intro range_intros) (simp_all add: in_range_def)

lemma t2v_pe_ps_score_range: "in_range (t2v_pe_ps_score data)"
  unfolding t2v_pe_ps_score_def Let_def by (intro range_intros) (simp_all add: in_range_def)

lemma t2q_market_pos_score_range: "in_range (t2q_market_pos_score data)"
  unfolding t2q_market_pos_score_def Let_def by (intro range_intros) (simp_all add: in_range_def)

lemma t2g_forward_score_range: "in_range (t2g_forward_score data)"
  unfolding t2g_forward_score_def Let_def by (intro range_intros) (simp_all add: in_range_def)

lemma t2g_eps_vs_rev_score_range: "in_range (t2g_eps_vs_rev_score data)"
  unfolding t2g_eps_vs_rev_score_def Let_def by (intro range_intros) (simp_all add: in_range_def)

lemma t2g_drivers_score_range: "in_range (t2g_drivers_score data)"
  unfolding t2g_drivers_score_def Let_def by (intro range_intros) (simp_all add: in_range_def)

lemma t2m_return_score_range: "in_range (t2m_return_score data)"
  unfolding t2m_return_score_def Let_def by (intro range_intros) (simp_all add: in_range_def)

lemma t2m_rel_score_range: "in_range (t2m_rel_score data)"
  unfolding t2m_rel_score_def Let_def by (intro range_intros) (simp_all add: in_range_def)

lemma t2sm_moat_score_range: "in_range (t2sm_moat_score data)"
  unfolding t2sm_moat_score_def Let_def by (intro range_intros) (simp_all add: in_range_def)

lemma t2sm_partnership_score_range: "in_range (t2sm_partnership_score data)"
  unfolding t2sm_partnership_score_def Let_def by (intro range_intros) (simp_all add: in_range_def)

lemma t3v_ps_score_range: "in_range (t3v_ps_score data)"
  unfolding t3v_ps_score_def Let_def by (intro range_intros) (simp_all add: in_range_def)

lemma t3v_insider_score_range: "in_range (t3v_insider_score data)"
  unfolding t3v_insider_score_def Let_def by (intro range_intros) (simp_all add: in_range_def)

lemma t3g_forward_score_range: "in_range (t3g_forward_score data)"
  unfolding t3g_forward_score_def Let_def by (intro range_intros) (simp_all add: in_range_def)

lemma t3g_drivers_score_range: "in_range (t3g_drivers_score data)"
  unfolding t3g_drivers_score_def Let_def by (intro range_intros) (simp_all add: in_range_def)

lemma t3m_rel_score_range: "in_range (t3m_rel_score data)"
  unfolding t3m_rel_score_def Let_def by (intro range_intros) (simp_all add: in_range_def)

lemma t3si_moat_score_range: "in_range (t3si_moat_score data)"
  unfolding t3si_moat_score_def Let_def by (intro range_intros) (simp_all add: in_range_def)

lemma t3si_partnership_score_range: "in_range (t3si_partnership_score data)"
  unfolding t3si_partnership_score_def Let_def by (intro range_intros) (simp_all add: in_range_def)

lemma t4v_ps_score_range: "in_range (t4v_ps_score data)"
  unfolding t4v_ps_score_def Let_def by (intro range_intros) (simp_all add: in_range_def)

lemma t4v_insider_score_range: "in_range (t4v_insider_score data)"
  unfolding t4v_insider_score_def Let_def by (intro range_intros) (simp_all add: in_range_def)

lemma t4g_drivers_score_range: "in_range (t4g_drivers_score data)"
  unfolding t4g_drivers_score_def Let_def by (intro range_intros) (simp_all add: in_range_def)

lemma t4g_forward_score_range: "in_range (t4g_forward_score data)"
  unfolding t4g_forward_score_def Let_def by (intro range_intros) (simp_all add: in_range_def)

lemma t4g_catalyst_score_range: "in_range (t4g_catalyst_score data)"
  unfolding t4g_catalyst_score_def Let_def by (intro range_intros) (simp_all add: in_range_def)

lemma t4d_tech_moat_score_range: "in_range (t4d_tech_moat_score data)"
  unfolding t4d_tech_moat_score_def Let_def by (intro range_intros) (simp_all add: in_range_def)

lemma t4d_catalyst_score_range: "in_range (t4d_catalyst_score data)"
  unfolding t4d_catalyst_score_def Let_def by (intro range_intros) (simp_all add: in_range_def)

lemma t3q_profit_score_range: "in_range (t3q_profit_score data)"
  unfolding t3q_profit_score_def Let_def by (intro range_intros) (simp_all add: in_range_def)

lemma t4q_profit_path_score_range: "in_range (t4q_profit_path_score data)"
  unfolding t4q_profit_path_score_def Let_def by (intro range_intros) (simp_all add: in_range_def)

lemma t4q_rev_quality_score_range: "in_range (t4q_rev_quality_score data)"
  unfolding t4q_rev_quality_score_def Let_def by (rule in_range_cap_floor)

lemma t4m_sentiment_score_range: "in_range (t4m_sentiment_score data)"
  unfolding t4m_sentiment_score_def Let_def by (rule in_range_cap_floor)

lemma t3m_sentiment_score_range: "in_range (t3m_sentiment_score data)"
proof -
  let ?v = "get_num data ''volume_change_pct'' 0"
  have "- 15 \<le> (if ?v > 50 then 25 else if ?v \<ge> 25 then 15 else if ?v < -25 then -15 else (0::real))"
    by simp
  moreover have "0 \<le> bonus (get_bool data ''sentiment_positive'' False) 15"
    and "0 \<le> bonus (flag (get_flags data ''analyst_momentum_bonuses'') ''analyst_momentum'') 15"
    by simp_all
  ultimately show ?thesis
    unfolding t3m_sentiment_score_def Let_def by (intro in_range_cap) linarith
qed

lemma t3g_accel_score_range: "in_range (t3g_accel_score data)"
  by (simp add: t3g_accel_score_def Let_def in_range_def cap_score_def)

lemma t4g_consist_score_range: "in_range (t4g_consist_score data)"
  by (simp add: t4g_consist_score_def Let_def in_range_def cap_score_def)

lemma t2q_retention_score_range: "in_range (t2q_retention_score data)"
proof (cases "get_bool data ''is_saas'' False")
  case True
  then show ?thesis
    unfolding t2q_retention_score_def Let_def by (simp only: if_True) (intro range_intros; simp
          add: in_range_def)
next
  case False
  have "in_range (Max (set [t2q_repeat_revenue_option data, t2q_churn_option data,
          t2q_customer_growth_option data, t2q_concentration_option data]))"
    by (rule Max_list_range) (simp_all add: t2q_repeat_revenue_option_def t2q_churn_option_def
          t2q_customer_growth_option_def t2q_concentration_option_def Let_def in_range_def)
  with False show ?thesis
    by (simp add: t2q_retention_score_def)
qed

lemma Max3_range:
  "in_range a \<Longrightarrow> in_range b \<Longrightarrow> in_range c \<Longrightarrow> in_range (Max (set ([] @ [a] @ [b] @ [c])))"
  by (rule Max_list_range) simp_all

lemma t3q_customer_score_range: "in_range (t3q_customer_score data)"
  unfolding t3q_customer_score_def Let_def
  by (intro in_range_if Max3_range) (simp_all add: in_range_def)

subsection \<open>Every scorer returns a score between 0 and 100\<close>

lemma scorer_range:
  "length ss = length ws \<Longrightarrow> list_all in_range ss \<Longrightarrow> convex_weights ws
   \<Longrightarrow> in_range (py_round2 (weighted_sum ss ws))"
  by (intro py_round2_range weighted_sum_range) (simp_all add: convex_weights_def list_all_iff)

lemma t1v_fcf_score_range: "\<exists>s. t1v_fcf_score data = Inr s \<and> in_range s"
  unfolding t1v_fcf_score_def Let_def by (rule bracket_score_range) (simp_all add:
        t1v_fcf_brackets_def in_range_def)

lemma t1q_roic_score_range: "\<exists>s. t1q_roic_score data = Inr s \<and> in_range s"
  unfolding t1q_roic_score_def Let_def by (rule bracket_score_range) (simp_all add:
        t1q_roic_brackets_def in_range_def)

lemma t1q_op_margin_score_range: "\<exists>s. t1q_op_margin_score data = Inr s \<and> in_range s"
  unfolding t1q_op_margin_score_def Let_def by (rule bracket_score_range) (simp_all add:
        t1q_op_margin_brackets_def in_range_def)

lemma t1q_margin_trend_score_range: "\<exists>s. t1q_margin_trend_score data = Inr s \<and> in_range s"
  unfolding t1q_margin_trend_score_def Let_def by (rule bracket_score_range) (simp_all add:
        t1q_margin_trend_brackets_def in_range_def)

lemma t1q_cash_conv_score_range: "\<exists>s. t1q_cash_conv_score data = Inr s \<and> in_range s"
  unfolding t1q_cash_conv_score_def Let_def by (rule bracket_score_range) (simp_all add:
        t1q_cash_brackets_def in_range_def)

lemma t1g_rev_growth_score_range: "\<exists>s. t1g_rev_growth_score data = Inr s \<and> in_range s"
  unfolding t1g_rev_growth_score_def Let_def by (rule bracket_score_range) (simp_all add:
        t1g_rev_brackets_def in_range_def)

lemma t1g_analyst_score_range: "\<exists>s. t1g_analyst_score data = Inr s \<and> in_range s"
  unfolding t1g_analyst_score_def Let_def by (rule bracket_score_range) (simp_all add:
        t1g_analyst_brackets_def in_range_def)

lemma t1fh_fcf_score_range: "\<exists>s. t1fh_fcf_score data = Inr s \<and> in_range s"
  unfolding t1fh_fcf_score_def Let_def by (rule bracket_score_range) (simp_all add:
        t1fh_fcf_brackets_def in_range_def)

lemma t2q_rev_scale_score_range: "\<exists>s. t2q_rev_scale_score data = Inr s \<and> in_range s"
  unfolding t2q_rev_scale_score_def Let_def by (rule bracket_score_range) (simp_all add:
        t2q_rev_scale_brackets_def in_range_def)

lemma t1m_rel_score_range: "\<exists>s. t1m_rel_score data = Inr s \<and> in_range s"
  unfolding t1m_rel_score_def Let_def by (rule bracket_score_range) (simp_all add:
        t1m_rel_brackets_def in_range_def)

lemma t1m_return_score_range: "\<exists>s. t1m_return_score data = Inr s \<and> in_range s"
proof (cases "get_num data ''return_12m_pct'' 0 < -10")
  case True
  then show ?thesis by (simp add: t1m_return_score_def in_range_def)
next
  case False
  have "\<exists>s. bracket_score (get_num data ''return_12m_pct'' 0) (butlast t1m_return_brackets) = Inr s
          \<and> in_range s"
    by (rule bracket_score_range) (simp_all add: t1m_return_brackets_def in_range_def)
  with False show ?thesis by (simp add: t1m_return_score_def)
qed

lemma t1g_eps_score_range: "\<exists>s. t1g_eps_score data = Inr s \<and> in_range s"
proof -
  obtain b where "bracket_score (get_num data ''eps_cagr_3yr_pct'' 0) t1g_eps_brackets = Inr b"
    using bracket_score_total [of t1g_eps_brackets] by (auto simp: t1g_eps_brackets_def)
  then show ?thesis
    by (simp add: t1g_eps_score_def Let_def and_then_def in_range_cap_floor)
qed

lemma t1v_pe_score_range: "\<exists>s. t1v_pe_score data = Inr s \<and> in_range s"
  by (simp add: t1v_pe_score_def Let_def and_then_def py_div_def in_range_cap_floor)
     (simp add: in_range_def)

lemma t4v_rel_val_score_range: "\<exists>s. t4v_rel_val_score data = Inr s \<and> in_range s"
  by (simp add: t4v_rel_val_score_def Let_def and_then_def py_div_def in_range_def)

lemma tier1_valuation_weights_ok: "length tier1_valuation_weights = 3 \<and> convex_weights tier1_valuation_weights"
  by (simp add: tier1_valuation_weights_def convex_weights_def)

lemma tier1_valuation_scores_ok:
  "\<exists>ss. tier1_valuation_scores data = Inr ss \<and> length ss = 3 \<and> list_all in_range ss"
proof -
  obtain x0 where x0: "t1v_pe_score data = Inr x0" "in_range x0"
    using t1v_pe_score_range by blast
  obtain x1 where x1: "t1v_fcf_score data = Inr x1" "in_range x1"
    using t1v_fcf_score_range by blast
  show ?thesis
    by (simp add: tier1_valuation_scores_def and_then_def x0 x1  t1v_peg_score_range)
qed

lemma tier1_valuation_ok: "\<exists>v. tier1_valuation data = Inr v \<and> in_range v"
proof -
  obtain ss where ss: "tier1_valuation_scores data = Inr ss" "length ss = 3" "list_all in_range ss"
    using tier1_valuation_scores_ok by blast
  have "in_range (py_round2 (weighted_sum ss tier1_valuation_weights))"
    by (rule scorer_range) (simp_all add: ss tier1_valuation_weights_ok)
  then show ?thesis by (simp add: tier1_valuation_def and_then_def ss)
qed

lemma tier1_quality_weights_ok: "length tier1_quality_weights = 6 \<and> convex_weights tier1_quality_weights"
  by (simp add: tier1_quality_weights_def convex_weights_def)

lemma tier1_quality_scores_ok:
  "\<exists>ss. tier1_quality_scores data = Inr ss \<and> length ss = 6 \<and> list_all in_range ss"
proof -
  obtain x0 where x0: "t1q_roic_score data = Inr x0" "in_range x0"
    using t1q_roic_score_range by blast
  obtain x1 where x1: "t1q_op_margin_score data = Inr x1" "in_range x1"
    using t1q_op_margin_score_range by blast
  obtain x2 where x2: "t1q_margin_trend_score data = Inr x2" "in_range x2"
    using t1q_margin_trend_score_range by blast
  obtain x3 where x3: "t1q_cash_conv_score data = Inr x3" "in_range x3"
    using t1q_cash_conv_score_range by blast
  show ?thesis
    by (simp add: tier1_quality_scores_def and_then_def x0 x1 x2 x3 t1q_moat_score_range
          t1q_mgmt_score_range)
qed

lemma tier1_quality_ok: "\<exists>v. tier1_quality data = Inr v \<and> in_range v"
proof -
  obtain ss where ss: "tier1_quality_scores data = Inr ss" "length ss = 6" "list_all in_range ss"
    using tier1_quality_scores_ok by blast
  have "in_range (py_round2 (weighted_sum ss tier1_quality_weights))"
    by (rule scorer_range) (simp_all add: ss tier1_quality_weights_ok)
  then show ?thesis by (simp add: tier1_quality_def and_then_def ss)
qed

lemma tier1_growth_weights_ok: "length tier1_growth_weights = 5 \<and> convex_weights tier1_growth_weights"
  by (simp add: tier1_growth_weights_def convex_weights_def)

lemma tier1_growth_scores_ok:
  "\<exists>ss. tier1_growth_scores data = Inr ss \<and> length ss = 5 \<and> list_all in_range ss"
proof -
  obtain x0 where x0: "t1g_rev_growth_score data = Inr x0" "in_range x0"
    using t1g_rev_growth_score_range by blast
  obtain x1 where x1: "t1g_eps_score data = Inr x1" "in_range x1"
    using t1g_eps_score_range by blast
  obtain x2 where x2: "t1g_analyst_score data = Inr x2" "in_range x2"
    using t1g_analyst_score_range by blast
  show ?thesis
    by (simp add: tier1_growth_scores_def and_then_def x0 x1 x2 t1g_consistency_score_range
          t1g_future_score_range)
qed

lemma tier1_growth_ok: "\<exists>v. tier1_growth data = Inr v \<and> in_range v"
proof -
  obtain ss where ss: "tier1_growth_scores data = Inr ss" "length ss = 5" "list_all in_range ss"
    using tier1_growth_scores_ok by blast
  have "in_range (py_round2 (weighted_sum ss tier1_growth_weights))"
    by (rule scorer_range) (simp_all add: ss tier1_growth_weights_ok)
  then show ?thesis by (simp add: tier1_growth_def and_then_def ss)
qed

lemma tier1_momentum_weights_ok: "length tier1_momentum_weights = 3 \<and> convex_weights tier1_momentum_weights"
  by (simp add: tier1_momentum_weights_def convex_weights_def)

lemma tier1_momentum_scores_ok:
  "\<exists>ss. tier1_momentum_scores data = Inr ss \<and> length ss = 3 \<and> list_all in_range ss"
proof -
  obtain x0 where x0: "t1m_return_score data = Inr x0" "in_range x0"
    using t1m_return_score_range by blast
  obtain x1 where x1: "t1m_rel_score data = Inr x1" "in_range x1"
    using t1m_rel_score_range by blast
  show ?thesis
    by (simp add: tier1_momentum_scores_def and_then_def x0 x1  t1m_technical_score_range)
qed

lemma tier1_momentum_ok: "\<exists>v. tier1_momentum data = Inr v \<and> in_range v"
proof -
  obtain ss where ss: "tier1_momentum_scores data = Inr ss" "length ss = 3" "list_all in_range ss"
    using tier1_momentum_scores_ok by blast
  have "in_range (py_round2 (weighted_sum ss tier1_momentum_weights))"
    by (rule scorer_range) (simp_all add: ss tier1_momentum_weights_ok)
  then show ?thesis by (simp add: tier1_momentum_def and_then_def ss)
qed

lemma tier1_financial_health_weights_ok: "length tier1_financial_health_weights = 3 \<and> convex_weights tier1_financial_health_weights"
  by (simp add: tier1_financial_health_weights_def convex_weights_def)

lemma tier1_financial_health_scores_ok:
  "\<exists>ss. tier1_financial_health_scores data = Inr ss \<and> length ss = 3 \<and> list_all in_range ss"
proof -
  obtain x0 where x0: "t1fh_fcf_score data = Inr x0" "in_range x0"
    using t1fh_fcf_score_range by blast
  show ?thesis
    by (simp add: tier1_financial_health_scores_def and_then_def x0 t1fh_net_cash_score_range
          t1fh_cap_alloc_score_range)
qed

lemma tier1_financial_health_ok: "\<exists>v. tier1_financial_health data = Inr v \<and> in_range v"
proof -
  obtain ss where ss: "tier1_financial_health_scores data = Inr ss" "length ss = 3" "list_all in_range ss"
    using tier1_financial_health_scores_ok by blast
  have "in_range (py_round2 (weighted_sum ss tier1_financial_health_weights))"
    by (rule scorer_range) (simp_all add: ss tier1_financial_health_weights_ok)
  then show ?thesis by (simp add: tier1_financial_health_def and_then_def ss)
qed

lemma tier2_valuation_weights_ok: "length tier2_valuation_weights = 3 \<and> convex_weights tier2_valuation_weights"
  by (simp add: tier2_valuation_weights_def convex_weights_def)

lemma tier2_valuation_scores_ok:
  "length (tier2_valuation_scores data) = 3 \<and> list_all in_range (tier2_valuation_scores data)"
  by (simp add: tier2_valuation_scores_def t2v_pe_ps_score_range t2v_peg_score_range
        t2v_rel_val_score_range)

lemma tier2_valuation_ok: "in_range (tier2_valuation data)"
  unfolding tier2_valuation_def by (rule scorer_range) (simp_all add: tier2_valuation_scores_ok
        tier2_valuation_weights_ok)

lemma tier2_quality_weights_ok: "length tier2_quality_weights = 6 \<and> convex_weights tier2_quality_weights"
  by (simp add: tier2_quality_weights_def convex_weights_def)

lemma tier2_quality_scores_ok:
  "\<exists>ss. tier2_quality_scores data = Inr ss \<and> length ss = 6 \<and> list_all in_range ss"
proof -
  obtain x0 where x0: "t2q_rev_scale_score data = Inr x0" "in_range x0"
    using t2q_rev_scale_score_range by blast
  show ?thesis
    by (simp add: tier2_quality_scores_def and_then_def x0 t2q_profit_score_range
          t2q_gross_margin_score_range t2q_margin_traj_score_range t2q_retention_score_range
          t2q_market_pos_score_range)
qed

lemma tier2_quality_ok: "\<exists>v. tier2_quality data = Inr v \<and> in_range v"
proof -
  obtain ss where ss: "tier2_quality_scores data = Inr ss" "length ss = 6" "list_all in_range ss"
    using tier2_quality_scores_ok by blast
  have "in_range (py_round2 (weighted_sum ss tier2_quality_weights))"
    by (rule scorer_range) (simp_all add: ss tier2_quality_weights_ok)
  then show ?thesis by (simp add: tier2_quality_def and_then_def ss)
qed

lemma tier2_growth_weights_ok: "length tier2_growth_weights = 7 \<and> convex_weights tier2_growth_weights"
  by (simp add: tier2_growth_weights_def convex_weights_def)

lemma tier2_growth_scores_ok:
  "length (tier2_growth_scores data) = 7 \<and> list_all in_range (tier2_growth_scores data)"
  by (simp add: tier2_growth_scores_def t2g_rev_growth_score_range t2g_consistency_score_range
        t2g_forward_score_range t2g_eps_vs_rev_score_range t2g_tam_score_range
        t2g_drivers_score_range t2g_cyclicality_score_range)

lemma tier2_growth_ok: "in_range (tier2_growth data)"
  unfolding tier2_growth_def by (rule scorer_range) (simp_all add: tier2_growth_scores_ok
        tier2_growth_weights_ok)

lemma tier2_momentum_weights_ok: "length tier2_momentum_weights = 3 \<and> convex_weights tier2_momentum_weights"
  by (simp add: tier2_momentum_weights_def convex_weights_def)

lemma tier2_momentum_scores_ok:
  "length (tier2_momentum_scores data) = 3 \<and> list_all in_range (tier2_momentum_scores data)"
  by (simp add: tier2_momentum_scores_def t2m_return_score_range t2m_rel_score_range
        t2m_technical_score_range)

lemma tier2_momentum_ok: "in_range (tier2_momentum data)"
  unfolding tier2_momentum_def by (rule scorer_range) (simp_all add: tier2_momentum_scores_ok
        tier2_momentum_weights_ok)

lemma tier2_scale_moat_weights_ok: "length tier2_scale_moat_weights = 4 \<and> convex_weights tier2_scale_moat_weights"
  by (simp add: tier2_scale_moat_weights_def convex_weights_def)

lemma tier2_scale_moat_scores_ok:
  "length (tier2_scale_moat_scores data) = 4 \<and> list_all in_range (tier2_scale_moat_scores data)"
  by (simp add: tier2_scale_moat_scores_def t2sm_comp_pos_score_range t2sm_moat_score_range
        t2sm_op_leverage_score_range t2sm_partnership_score_range)

lemma tier2_scale_moat_ok: "in_range (tier2_scale_moat data)"
  unfolding tier2_scale_moat_def by (rule scorer_range) (simp_all add:
        tier2_scale_moat_scores_ok tier2_scale_moat_weights_ok)

lemma tier3_valuation_weights_ok: "length tier3_valuation_weights = 3 \<and> convex_weights tier3_valuation_weights"
  by (simp add: tier3_valuation_weights_def convex_weights_def)

lemma tier3_valuation_scores_ok:
  "length (tier3_valuation_scores data) = 3 \<and> list_all in_range (tier3_valuation_scores data)"
  by (simp add: tier3_valuation_scores_def t3v_ps_score_range t3v_rel_val_score_range
        t3v_insider_score_range)

lemma tier3_valuation_ok: "in_range (tier3_valuation data)"
  unfolding tier3_valuation_def by (rule scorer_range) (simp_all add: tier3_valuation_scores_ok
        tier3_valuation_weights_ok)

lemma tier3_quality_weights_ok: "length tier3_quality_weights = 5 \<and> convex_weights tier3_quality_weights"
  by (simp add: tier3_quality_weights_def convex_weights_def)

lemma tier3_quality_scores_ok:
  "length (tier3_quality_scores data) = 5 \<and> list_all in_range (tier3_quality_scores data)"
  by (simp add: tier3_quality_scores_def t3q_scale_score_range t3q_profit_score_range
        t3q_gross_score_range t3q_unit_econ_score_range t3q_customer_score_range)

lemma tier3_quality_ok: "in_range (tier3_quality data)"
  unfolding tier3_quality_def by (rule scorer_range) (simp_all add: tier3_quality_scores_ok
        tier3_quality_weights_ok)

lemma tier3_growth_weights_ok: "length tier3_growth_weights = 6 \<and> convex_weights tier3_growth_weights"
  by (simp add: tier3_growth_weights_def convex_weights_def)

lemma tier3_growth_scores_ok:
  "length (tier3_growth_scores data) = 6 \<and> list_all in_range (tier3_growth_scores data)"
  by (simp add: tier3_growth_scores_def t3g_rev_score_range t3g_accel_score_range
        t3g_forward_score_range t3g_tam_score_range t3g_drivers_score_range
        t3g_cyclical_score_range)

lemma tier3_growth_ok: "in_range (tier3_growth data)"
  unfolding tier3_growth_def by (rule scorer_range) (simp_all add: tier3_growth_scores_ok
        tier3_growth_weights_ok)

lemma tier3_momentum_weights_ok: "length tier3_momentum_weights = 3 \<and> convex_weights tier3_momentum_weights"
  by (simp add: tier3_momentum_weights_def convex_weights_def)

lemma tier3_momentum_scores_ok:
  "length (tier3_momentum_scores data) = 3 \<and> list_all in_range (tier3_momentum_scores data)"
  by (simp add: tier3_momentum_scores_def t3m_return_score_range t3m_rel_score_range
        t3m_sentiment_score_range)

lemma tier3_momentum_ok: "in_range (tier3_momentum data)"
  unfolding tier3_momentum_def by (rule scorer_range) (simp_all add: tier3_momentum_scores_ok
        tier3_momentum_weights_ok)

lemma tier3_scale_inflection_weights_ok: "length tier3_scale_inflection_weights = 4 \<and> convex_weights tier3_scale_inflection_weights"
  by (simp add: tier3_scale_inflection_weights_def convex_weights_def)

lemma tier3_scale_inflection_scores_ok:
  "length (tier3_scale_inflection_scores data) = 4 \<and> list_all in_range (tier3_scale_inflection_scores data)"
  by (simp add: tier3_scale_inflection_scores_def t3si_market_pos_score_range
        t3si_op_lev_score_range t3si_moat_score_range t3si_partnership_score_range)

lemma tier3_scale_inflection_ok: "in_range (tier3_scale_inflection data)"
  unfolding tier3_scale_inflection_def by (rule scorer_range) (simp_all add:
        tier3_scale_inflection_scores_ok tier3_scale_inflection_weights_ok)

lemma tier4_valuation_weights_ok: "length tier4_valuation_weights = 3 \<and> convex_weights tier4_valuation_weights"
  by (simp add: tier4_valuation_weights_def convex_weights_def)

lemma tier4_valuation_scores_ok:
  "\<exists>ss. tier4_valuation_scores data = Inr ss \<and> length ss = 3 \<and> list_all in_range ss"
proof -
  obtain x0 where x0: "t4v_rel_val_score data = Inr x0" "in_range x0"
    using t4v_rel_val_score_range by blast
  show ?thesis
    by (simp add: tier4_valuation_scores_def and_then_def x0 t4v_ps_score_range
          t4v_insider_score_range)
qed

lemma tier4_valuation_ok: "\<exists>v. tier4_valuation data = Inr v \<and> in_range v"
proof -
  obtain ss where ss: "tier4_valuation_scores data = Inr ss" "length ss = 3" "list_all in_range ss"
    using tier4_valuation_scores_ok by blast
  have "in_range (py_round2 (weighted_sum ss tier4_valuation_weights))"
    by (rule scorer_range) (simp_all add: ss tier4_valuation_weights_ok)
  then show ?thesis by (simp add: tier4_valuation_def and_then_def ss)
qed

lemma tier4_quality_weights_ok: "length tier4_quality_weights = 4 \<and> convex_weights tier4_quality_weights"
  by (simp add: tier4_quality_weights_def convex_weights_def)

lemma tier4_quality_scores_ok:
  "length (tier4_quality_scores data) = 4 \<and> list_all in_range (tier4_quality_scores data)"
  by (simp add: tier4_quality_scores_def t4q_gross_score_range t4q_rev_quality_score_range
        t4q_unit_econ_score_range t4q_profit_path_score_range)

lemma tier4_quality_ok: "in_range (tier4_quality data)"
  unfolding tier4_quality_def by (rule scorer_range) (simp_all add: tier4_quality_scores_ok
        tier4_quality_weights_ok)

lemma tier4_growth_weights_ok: "length tier4_growth_weights = 7 \<and> convex_weights tier4_growth_weights"
  by (simp add: tier4_growth_weights_def convex_weights_def)

lemma tier4_growth_scores_ok:
  "length (tier4_growth_scores data) = 7 \<and> list_all in_range (tier4_growth_scores data)"
  by (simp add: tier4_growth_scores_def t4g_rev_score_range t4g_consist_score_range
        t4g_tam_score_range t4g_penetration_score_range t4g_drivers_score_range
        t4g_forward_score_range t4g_catalyst_score_range)

lemma tier4_growth_ok: "in_range (tier4_growth data)"
  unfolding tier4_growth_def by (rule scorer_range) (simp_all add: tier4_growth_scores_ok
        tier4_growth_weights_ok)

lemma tier4_momentum_weights_ok: "length tier4_momentum_weights = 4 \<and> convex_weights tier4_momentum_weights"
  by (simp add: tier4_momentum_weights_def convex_weights_def)

lemma tier4_momentum_scores_ok:
  "length (tier4_momentum_scores data) = 4 \<and> list_all in_range (tier4_momentum_scores data)"
  by (simp add: tier4_momentum_scores_def t4m_return_score_range t4m_rel_score_range
        t4m_sentiment_score_range t4m_volume_score_range)

lemma tier4_momentum_ok: "in_range (tier4_momentum data)"
  unfolding tier4_momentum_def by (rule scorer_range) (simp_all add: tier4_momentum_scores_ok
        tier4_momentum_weights_ok)

lemma tier4_disruption_weights_ok: "length tier4_disruption_weights = 4 \<and> convex_weights tier4_disruption_weights"
  by (simp add: tier4_disruption_weights_def convex_weights_def)

lemma tier4_disruption_scores_ok:
  "length (tier4_disruption_scores data) = 4 \<and> list_all in_range (tier4_disruption_scores data)"
  by (simp add: tier4_disruption_scores_def t4d_disruption_score_range t4d_tech_moat_score_range
        t4d_comp_dyn_score_range t4d_catalyst_score_range)

lemma tier4_disruption_ok: "in_range (tier4_disruption data)"
  unfolding tier4_disruption_def by (rule scorer_range) (simp_all add:
        tier4_disruption_scores_ok tier4_disruption_weights_ok)

subsection \<open>Composites, position size and the entry point\<close>


lemma calculate_tier1_composite_ok:
  "\<exists>c comps. calculate_tier1_composite data = Inr (c, comps) \<and> in_range c
     \<and> length comps = 5 \<and> list_all in_range (map snd comps)"
proof -
  obtain v where v: "tier1_valuation data = Inr v" "in_range v" using tier1_valuation_ok by blast
  obtain q where q: "tier1_quality data = Inr q" "in_range q" using tier1_quality_ok by blast
  obtain g where g: "tier1_growth data = Inr g" "in_range g" using tier1_growth_ok by blast
  obtain m where m: "tier1_momentum data = Inr m" "in_range m" using tier1_momentum_ok by blast
  obtain fh where fh: "tier1_financial_health data = Inr fh" "in_range fh"
    using tier1_financial_health_ok by blast
  have "in_range (py_round2 (weighted_sum [v, q, g, m, fh] tier1_composite_weights))"
    by (rule scorer_range) (simp_all add: v q g m fh tier1_composite_weights_def convex_weights_def)
  then show ?thesis
    by (simp add: calculate_tier1_composite_def and_then_def v q g m fh)
qed

lemma calculate_tier2_composite_ok:
  "\<exists>c comps. calculate_tier2_composite data = Inr (c, comps) \<and> in_range c
     \<and> length comps = 5 \<and> list_all in_range (map snd comps)"
proof -
  obtain q where q: "tier2_quality data = Inr q" "in_range q" using tier2_quality_ok by blast
  have "in_range (py_round2 (weighted_sum [tier2_valuation data, q, tier2_growth data,
          tier2_momentum data, tier2_scale_moat data] tier2_composite_weights))"
    by (rule scorer_range)
       (simp_all add: q tier2_valuation_ok tier2_growth_ok tier2_momentum_ok tier2_scale_moat_ok
          tier2_composite_weights_def convex_weights_def)
  then show ?thesis
    by (simp add: calculate_tier2_composite_def and_then_def Let_def q tier2_valuation_ok
          tier2_growth_ok tier2_momentum_ok tier2_scale_moat_ok)
qed

lemma calculate_tier3_composite_ok:
  "\<exists>c comps. calculate_tier3_composite data = Inr (c, comps) \<and> in_range c
     \<and> length comps = 5 \<and> list_all in_range (map snd comps)"
proof -
  have "in_range (py_round2 (weighted_sum [tier3_valuation data, tier3_quality data,
          tier3_growth data, tier3_momentum data, tier3_scale_inflection data]
          tier3_composite_weights))"
    by (rule scorer_range)
       (simp_all add: tier3_valuation_ok tier3_quality_ok tier3_growth_ok tier3_momentum_ok
          tier3_scale_inflection_ok tier3_composite_weights_def convex_weights_def)
  then show ?thesis
    by (simp add: calculate_tier3_composite_def Let_def tier3_valuation_ok tier3_quality_ok
          tier3_growth_ok tier3_momentum_ok tier3_scale_inflection_ok)
qed

lemma calculate_tier4_composite_ok:
  "\<exists>c comps. calculate_tier4_composite data = Inr (c, comps) \<and> in_range c
     \<and> length comps = 5 \<and> list_all in_range (map snd comps)"
proof -
  obtain v where v: "tier4_valuation data = Inr v" "in_range v" using tier4_valuation_ok by blast
  have "in_range (py_round2 (weighted_sum [v, tier4_quality data, tier4_growth data,
          tier4_momentum data, tier4_disruption data] tier4_composite_weights))"
    by (rule scorer_range)
       (simp_all add: v tier4_quality_ok tier4_growth_ok tier4_momentum_ok tier4_disruption_ok
          tier4_composite_weights_def convex_weights_def)
  then show ?thesis
    by (simp add: calculate_tier4_composite_def and_then_def Let_def v tier4_quality_ok
          tier4_growth_ok tier4_momentum_ok tier4_disruption_ok)
qed

text \<open>The composite that \<^verbatim>\<open>calculate_score\<close> selects by tier.\<close>

lemma selected_composite_ok:
  "\<exists>c comps. (if tier = 1 then calculate_tier1_composite data
                else if tier = 2 then calculate_tier2_composite data
                else if tier = 3 then calculate_tier3_composite data
                else calculate_tier4_composite data) = Inr (c, comps)
     \<and> in_range c \<and> length comps = 5 \<and> list_all in_range (map snd comps)"
  using calculate_tier1_composite_ok [of data] calculate_tier2_composite_ok [of data]
    calculate_tier3_composite_ok [of data] calculate_tier4_composite_ok [of data]
  by simp

lemma calculate_score_components:
  assumes "calculate_score ticker data = Inr r"
  shows "in_range (r_composite_score r) \<and> length (r_components r) = 5
           \<and> list_all in_range (map snd (r_components r))"
proof -
  let ?tier = "determine_tier (get_num data ''market_cap_billions'' 0)"
  obtain c comps where sel:
    "(if ?tier = 1 then calculate_tier1_composite data
      else if ?tier = 2 then calculate_tier2_composite data
      else if ?tier = 3 then calculate_tier3_composite data
      else calculate_tier4_composite data) = Inr (c, comps)"
    and ok: "in_range c" "length comps = 5" "list_all in_range (map snd comps)"
    using selected_composite_ok [of ?tier data] by blast
  from assms have "r_composite_score r = c \<and> r_components r = comps"
    unfolding calculate_score_def Let_def sel
    by (auto simp: and_then_def split: sum.splits)
  with ok show ?thesis by simp
qed








lemma googl_result:
  "calculate_score ''GOOGL'' googl_data =
     Inr \<lparr>r_ticker = ''GOOGL'', r_tier = 1, r_tier_name = ''Mega-Cap Core'',
          r_market_cap_billions = 1800, r_composite_score = 89.89,
          r_rating = ''Strong Buy'', r_stars = [], r_position_size_pct = 8.5,
          r_min_score_for_tier = 60, r_score_buffer = 29.89,
          r_components = [(''Valuation'', 88.75), (''Quality'', 94.30), (''Growth'', 76.75),
                          (''Momentum'', 100.00), (''Financial_Health'', 99.50)],
          r_beta = 1.1\<rparr>"
  by code_simp

lemma empty_result:
  "calculate_score ticker empty_input =
     Inr \<lparr>r_ticker = ticker, r_tier = 4, r_tier_name = ''Small-Cap Moonshots'',
          r_market_cap_billions = 0, r_composite_score = 33.53,
          r_rating = ''Sell'', r_stars = [], r_position_size_pct = 1,
          r_min_score_for_tier = 70, r_score_buffer = - 36.47,
          r_components = [(''Valuation'', 38.25), (''Quality'', 17), (''Growth'', 28.2),
                          (''Momentum'', 42.5), (''Disruption'', 47.5)],
          r_beta = 1\<rparr>"
  by code_simp

subsection \<open>Brackets at a threshold, removed fields and the P/E default\<close>






section \<open>The properties of the specification\<close>

text \<open>
  C1. On the record of the Tier-1 end-to-end scenario \<^verbatim>\<open>calculate_score\<close> returns a
  result of tier 1 whose components are Valuation 88.75, Quality 94.30, Growth 76.75,
  Momentum 100.00 and Financial_Health 99.50, whose composite is within 0.01 of 89.89 and
  whose rating is Strong Buy.
\<close>

theorem tier1_scenario:
  "\<exists>r. calculate_score ''GOOGL'' googl_data = Inr r
     \<and> r_tier r = 1
     \<and> r_components r = [(''Valuation'', 88.75), (''Quality'', 94.30), (''Growth'', 76.75),
                           (''Momentum'', 100.00), (''Financial_Health'', 99.50)]
     \<and> \<bar>r_composite_score r - 89.89\<bar> \<le> 0.01
     \<and> r_rating r = ''Strong Buy''"
  by (simp add: googl_result)

text \<open>
  C4. \<^verbatim>\<open>determine_tier\<close> is defined on every market cap by half-open intervals
  with an inclusive lower bound: tier 1 from 200, tier 2 on [50, 200), tier 3 on
  [10, 50), tier 4 below 10; so 200.0 is tier 1, 199.99 and 50.0 are tier 2 and 9.999 is
  tier 4.
\<close>

theorem determine_tier_intervals:
  "(cap \<ge> 200 \<longrightarrow> determine_tier cap = 1)
   \<and> (50 \<le> cap \<and> cap < 200 \<longrightarrow> determine_tier cap = 2)
   \<and> (10 \<le> cap \<and> cap < 50 \<longrightarrow> determine_tier cap = 3)
   \<and> (cap < 10 \<longrightarrow> determine_tier cap = 4)
   \<and> determine_tier 200.0 = 1 \<and> determine_tier 199.99 = 2
   \<and> determine_tier 50.0 = 2 \<and> determine_tier 9.999 = 4"
  by (simp add: determine_tier_def)

theorem determine_tier_intervals_witness:
  "determine_tier 1800 = 1 \<and> determine_tier 75 = 2 \<and> determine_tier 10 = 3
   \<and> determine_tier 0 = 4"
  using determine_tier_intervals [of 1800] determine_tier_intervals [of 75]
    determine_tier_intervals [of 10] determine_tier_intervals [of 0]
  by simp



text \<open>
  C7. \<^verbatim>\<open>calculate_position_size\<close> is not total: in every tier there is a beta at
  which the divisor \<open>1 + (beta - 1) * vol_mult\<close> is zero, and the division raises
  ZeroDivisionError there; in tier 2 that beta is 0.
\<close>

theorem calculate_position_size_raises:
  "calculate_position_size 2 50 0 = Inl ZeroDivisionError
   \<and> calculate_position_size 1 50 (- 1 / 3) = Inl ZeroDivisionError
   \<and> calculate_position_size 3 50 (3 / 13) = Inl ZeroDivisionError
   \<and> calculate_position_size 4 50 (1 / 3) = Inl ZeroDivisionError"
  by (simp add: calculate_position_size_def base_allocations_def vol_multipliers_def
        subscript_def and_then_def py_div_def)

text \<open>
  C2. For every input record: the composite and the five component scores of a result of
  \<^verbatim>\<open>calculate_score\<close> lie in [0, 100]; each tier's composite function returns, with
  a composite and five components in [0, 100]; and every sub-score that enters the
  weighted average of any of the twenty scorers lies in [0, 100], among them the Tier-3
  growth acceleration and the Tier-4 revenue quality.
\<close>

theorem range_invariant:
  "(\<forall>r. calculate_score ticker data = Inr r \<longrightarrow>
        in_range (r_composite_score r) \<and> length (r_components r) = 5
        \<and> list_all in_range (map snd (r_components r)))
   \<and> (\<exists>c comps. calculate_tier1_composite data = Inr (c, comps) \<and> in_range c
          \<and> length comps = 5 \<and> list_all in_range (map snd comps))
   \<and> (\<exists>c comps. calculate_tier2_composite data = Inr (c, comps) \<and> in_range c
          \<and> length comps = 5 \<and> list_all in_range (map snd comps))
   \<and> (\<exists>c comps. calculate_tier3_composite data = Inr (c, comps) \<and> in_range c
          \<and> length comps = 5 \<and> list_all in_range (map snd comps))
   \<and> (\<exists>c comps. calculate_tier4_composite data = Inr (c, comps) \<and> in_range c
          \<and> length comps = 5 \<and> list_all in_range (map snd comps))
   \<and> (\<exists>ss. tier1_valuation_scores data = Inr ss \<and> list_all in_range ss)
   \<and> (\<exists>ss. tier1_quality_scores data = Inr ss \<and> list_all in_range ss)
   \<and> (\<exists>ss. tier1_growth_scores data = Inr ss \<and> list_all in_range ss)
   \<and> (\<exists>ss. tier1_momentum_scores data = Inr ss \<and> list_all in_range ss)
   \<and> (\<exists>ss. tier1_financial_health_scores data = Inr ss \<and> list_all in_range ss)
   \<and> list_all in_range (tier2_valuation_scores data)
   \<and> (\<exists>ss. tier2_quality_scores data = Inr ss \<and> list_all in_range ss)
   \<and> list_all in_range (tier2_growth_scores data)
   \<and> list_all in_range (tier2_momentum_scores data)
   \<and> list_all in_range (tier2_scale_moat_scores data)
   \<and> list_all in_range (tier3_valuation_scores data)
   \<and> list_all in_range (tier3_quality_scores data)
   \<and> list_all in_range (tier3_growth_scores data)
   \<and> list_all in_range (tier3_momentum_scores data)
   \<and> list_all in_range (tier3_scale_inflection_scores data)
   \<and> (\<exists>ss. tier4_valuation_scores data = Inr ss \<and> list_all in_range ss)
   \<and> list_all in_range (tier4_quality_scores data)
   \<and> list_all in_range (tier4_growth_scores data)
   \<and> list_all in_range (tier4_momentum_scores data)
   \<and> list_all in_range (tier4_disruption_scores data)"
proof (intro conjI)
  show "\<forall>r. calculate_score ticker data = Inr r \<longrightarrow>
          in_range (r_composite_score r) \<and> length (r_components r) = 5
          \<and> list_all in_range (map snd (r_components r))"
    using calculate_score_components by blast
  show "\<exists>ss. tier1_valuation_scores data = Inr ss \<and> list_all in_range ss"
    using tier1_valuation_scores_ok [of data] by blast
  show "\<exists>ss. tier1_quality_scores data = Inr ss \<and> list_all in_range ss"
    using tier1_quality_scores_ok [of data] by blast
  show "\<exists>ss. tier1_growth_scores data = Inr ss \<and> list_all in_range ss"
    using tier1_growth_scores_ok [of data] by blast
  show "\<exists>ss. tier1_momentum_scores data = Inr ss \<and> list_all in_range ss"
    using tier1_momentum_scores_ok [of data] by blast
  show "\<exists>ss. tier1_financial_health_scores data = Inr ss \<and> list_all in_range ss"
    using tier1_financial_health_scores_ok [of data] by blast
  show "\<exists>ss. tier2_quality_scores data = Inr ss \<and> list_all in_range ss"
    using tier2_quality_scores_ok [of data] by blast
  show "\<exists>ss. tier4_valuation_scores data = Inr ss \<and> list_all in_range ss"
    using tier4_valuation_scores_ok [of data] by blast
qed (simp_all add: calculate_tier1_composite_ok calculate_tier2_composite_ok
       calculate_tier3_composite_ok calculate_tier4_composite_ok
       tier2_valuation_scores_ok tier2_growth_scores_ok tier2_momentum_scores_ok
       tier2_scale_moat_scores_ok tier3_valuation_scores_ok tier3_quality_scores_ok
       tier3_growth_scores_ok tier3_momentum_scores_ok tier3_scale_inflection_scores_ok
       tier4_quality_scores_ok tier4_growth_scores_ok tier4_momentum_scores_ok
       tier4_disruption_scores_ok)

theorem range_invariant_witness:
  "\<exists>r. calculate_score ''GOOGL'' googl_data = Inr r \<and> r_composite_score r = 89.89
     \<and> in_range (r_composite_score r) \<and> list_all in_range (map snd (r_components r))"
  using range_invariant [of "''GOOGL''" googl_data] googl_result by simp

text \<open>
  C8. The five composite weights of every tier sum to 1 (so also within 1e-9), and they
  are the weights of the table \<^verbatim>\<open>TIER_WEIGHTS\<close>; the sub-weights of each of the twenty
  scorers sum to 1, those of Tier-2 growth being 0.25, 0.15, 0.20, 0.10, 0.15, 0.10, 0.05.
\<close>

theorem weights_sum_to_one:
  "sum_list tier1_composite_weights = 1 \<and> sum_list tier2_composite_weights = 1
   \<and> sum_list tier3_composite_weights = 1 \<and> sum_list tier4_composite_weights = 1
   \<and> \<bar>sum_list tier1_composite_weights - 1\<bar> \<le> 1 / 10 ^ 9
   \<and> \<bar>sum_list tier2_composite_weights - 1\<bar> \<le> 1 / 10 ^ 9
   \<and> \<bar>sum_list tier3_composite_weights - 1\<bar> \<le> 1 / 10 ^ 9
   \<and> \<bar>sum_list tier4_composite_weights - 1\<bar> \<le> 1 / 10 ^ 9
   \<and> map_option (map snd) (TIER_WEIGHTS 1) = Some tier1_composite_weights
   \<and> map_option (map snd) (TIER_WEIGHTS 2) = Some tier2_composite_weights
   \<and> map_option (map snd) (TIER_WEIGHTS 3) = Some tier3_composite_weights
   \<and> map_option (map snd) (TIER_WEIGHTS 4) = Some tier4_composite_weights
   \<and> sum_list tier1_valuation_weights = 1 \<and> sum_list tier1_quality_weights = 1
   \<and> sum_list tier1_growth_weights = 1 \<and> sum_list tier1_momentum_weights = 1
   \<and> sum_list tier1_financial_health_weights = 1
   \<and> sum_list tier2_valuation_weights = 1 \<and> sum_list tier2_quality_weights = 1
   \<and> sum_list tier2_growth_weights = 1 \<and> sum_list tier2_momentum_weights = 1
   \<and> sum_list tier2_scale_moat_weights = 1
   \<and> sum_list tier3_valuation_weights = 1 \<and> sum_list tier3_quality_weights = 1
   \<and> sum_list tier3_growth_weights = 1 \<and> sum_list tier3_momentum_weights = 1
   \<and> sum_list tier3_scale_inflection_weights = 1
   \<and> sum_list tier4_valuation_weights = 1 \<and> sum_list tier4_quality_weights = 1
   \<and> sum_list tier4_growth_weights = 1 \<and> sum_list tier4_momentum_weights = 1
   \<and> sum_list tier4_disruption_weights = 1
   \<and> tier2_growth_weights = [0.25, 0.15, 0.20, 0.10, 0.15, 0.10, 0.05]"
  by (simp add: tier1_composite_weights_def tier2_composite_weights_def
        tier3_composite_weights_def tier4_composite_weights_def TIER_WEIGHTS_def
        tier1_valuation_weights_def tier1_quality_weights_def tier1_growth_weights_def
        tier1_momentum_weights_def tier1_financial_health_weights_def
        tier2_valuation_weights_def tier2_quality_weights_def tier2_growth_weights_def
        tier2_momentum_weights_def tier2_scale_moat_weights_def
        tier3_valuation_weights_def tier3_quality_weights_def tier3_growth_weights_def
        tier3_momentum_weights_def tier3_scale_inflection_weights_def
        tier4_valuation_weights_def tier4_quality_weights_def tier4_growth_weights_def
        tier4_momentum_weights_def tier4_disruption_weights_def)

text \<open>
  C9. When \<^verbatim>\<open>is_saas\<close> is false, the customer-retention sub-score of
  \<^verbatim>\<open>tier2_quality\<close>, the fifth entry of its sub-scores, is the maximum of the
  repeat-revenue, churn, customer-growth and concentration proxy scores.
\<close>

theorem tier2_retention_is_max:
  assumes "\<not> get_bool data ''is_saas'' False"
  shows "t2q_retention_score data
           = Max {t2q_repeat_revenue_option data, t2q_churn_option data,
                  t2q_customer_growth_option data, t2q_concentration_option data}
         \<and> (\<exists>ss. tier2_quality_scores data = Inr ss \<and> ss ! 4 = t2q_retention_score data)"
proof -
  obtain x where "t2q_rev_scale_score data = Inr x" using t2q_rev_scale_score_range by blast
  then have "\<exists>ss. tier2_quality_scores data = Inr ss \<and> ss ! 4 = t2q_retention_score data"
    by (simp add: tier2_quality_scores_def and_then_def)
  moreover have "t2q_retention_score data
           = Max {t2q_repeat_revenue_option data, t2q_churn_option data,
                  t2q_customer_growth_option data, t2q_concentration_option data}"
    using assms by (simp add: t2q_retention_score_def)
  ultimately show ?thesis by blast
qed

theorem tier2_retention_is_max_witness:
  "t2q_retention_score (num_input [(''repeat_revenue_pct'', 80), (''customer_churn_pct'', 12)])
     = 100
   \<and> (100 + 50 + 40 + 25) / 4 \<noteq> (100::real)"
proof -
  let ?d = "num_input [(''repeat_revenue_pct'', 80), (''customer_churn_pct'', 12)]"
  have h: "\<not> get_bool ?d ''is_saas'' False" by (simp add: get_bool_def num_input_def)
  have "t2q_repeat_revenue_option ?d = 100" "t2q_churn_option ?d = 50"
    "t2q_customer_growth_option ?d = 40" "t2q_concentration_option ?d = 25"
    by (simp_all add: t2q_repeat_revenue_option_def t2q_churn_option_def
          t2q_customer_growth_option_def t2q_concentration_option_def get_num_def num_input_def)
  with tier2_retention_is_max [OF h] show ?thesis by simp
qed

text \<open>
  C10. When the record has no \<^verbatim>\<open>sector_median_ps\<close>, the relative-valuation
  sub-score of the Tier-3 and of the Tier-4 valuation, the second entry of their
  sub-scores, is exactly 75 whatever the other fields hold.
\<close>

theorem missing_sector_median_scores_75:
  assumes "nums data ''sector_median_ps'' = None"
  shows "t3v_rel_val_score data = 75 \<and> t4v_rel_val_score data = Inr 75
         \<and> tier3_valuation_scores data ! 1 = 75
         \<and> (\<exists>ss. tier4_valuation_scores data = Inr ss \<and> ss ! 1 = 75)"
proof -
  have m: "get_num data ''sector_median_ps'' x = x" for x
    using assms by (simp add: get_num_def)
  have a: "t3v_rel_val_score data = 75" by (simp add: t3v_rel_val_score_def Let_def m)
  have b: "t4v_rel_val_score data = Inr 75"
    by (simp add: t4v_rel_val_score_def Let_def m and_then_def py_div_def)
  from a b show ?thesis
    by (simp add: tier3_valuation_scores_def tier4_valuation_scores_def and_then_def)
qed

theorem missing_sector_median_scores_75_witness:
  "t3v_rel_val_score (num_input [(''ps_ratio'', 12), (''revenue_growth_ttm_pct'', 45)]) = 75
   \<and> t4v_rel_val_score (num_input [(''ps_ratio'', 12), (''revenue_growth_ttm_pct'', 45)]) = Inr 75"
proof -
  have "nums (num_input [(''ps_ratio'', 12), (''revenue_growth_ttm_pct'', 45)])
          ''sector_median_ps'' = None"
    by (simp add: num_input_def)
  from missing_sector_median_scores_75 [OF this] show ?thesis by simp
qed







end
